theory Spec2Isabelle
  imports Main "HOL-Library.Sublist"
begin

section \<open>Python text primitives\<close>

text \<open>
  A Python \<open>str\<close> is modelled as a \<open>string\<close>: a list of characters, one per code point.
  The characters of HOL are the code points 0..255 (Basic Latin and Latin-1 Supplement), so
  the model covers the texts written with these code points; \<open>length\<close> is Python's \<open>len\<close>.
  The classification tables below are those of Python 3 (\<open>str.isspace\<close>, \<open>str.isalnum\<close>,
  \<open>str.isdigit\<close>, \<open>str.isprintable\<close>, \<open>str.lower\<close>, and the classes \<open>\s\<close>, \<open>\d\<close>, \<open>\w\<close>
  of the module \<open>re\<close> on \<open>str\<close> patterns) restricted to this range.
\<close>

definition code :: "char \<Rightarrow> int" where
  "code c = of_char c"

definition isspace :: "char \<Rightarrow> bool" where
  "isspace c = (let n = code c in
     (9 \<le> n \<and> n \<le> 13) \<or> (28 \<le> n \<and> n \<le> 32) \<or> n = 133 \<or> n = 160)"

definition isalpha :: "char \<Rightarrow> bool" where
  "isalpha c = (let n = code c in
     (65 \<le> n \<and> n \<le> 90) \<or> (97 \<le> n \<and> n \<le> 122) \<or> n = 170 \<or> n = 181 \<or> n = 186
     \<or> (192 \<le> n \<and> n \<le> 214) \<or> (216 \<le> n \<and> n \<le> 246) \<or> 248 \<le> n)"

definition isdecimal :: "char \<Rightarrow> bool" where
  "isdecimal c = (let n = code c in 48 \<le> n \<and> n \<le> 57)"

definition isdigit :: "char \<Rightarrow> bool" where
  "isdigit c = (let n = code c in (48 \<le> n \<and> n \<le> 57) \<or> n = 178 \<or> n = 179 \<or> n = 185)"

definition isnumeric :: "char \<Rightarrow> bool" where
  "isnumeric c = (let n = code c in isdigit c \<or> (188 \<le> n \<and> n \<le> 190))"

definition isalnum :: "char \<Rightarrow> bool" where
  "isalnum c = (isalpha c \<or> isdecimal c \<or> isdigit c \<or> isnumeric c)"

definition isprintable :: "char \<Rightarrow> bool" where
  "isprintable c = (let n = code c in
     (32 \<le> n \<and> n \<le> 126) \<or> (161 \<le> n \<and> n \<le> 172) \<or> 174 \<le> n)"

definition isupper :: "char \<Rightarrow> bool" where
  "isupper c = (let n = code c in
     (65 \<le> n \<and> n \<le> 90) \<or> (192 \<le> n \<and> n \<le> 222 \<and> n \<noteq> 215))"

text \<open>
  \<open>str.lower\<close>: in this range an upper-case letter is mapped to the code point 32 above it,
  which is the same character with bit 5 set.
\<close>

definition lower_char :: "char \<Rightarrow> char" where
  "lower_char c = (if isupper c
     then (case c of Char b0 b1 b2 b3 b4 b5 b6 b7 \<Rightarrow> Char b0 b1 b2 b3 b4 True b6 b7)
     else c)"

definition lower :: "string \<Rightarrow> string" where
  "lower s = map lower_char s"

definition strip :: "string \<Rightarrow> string" where
  "strip s = rev (dropWhile isspace (rev (dropWhile isspace s)))"

text \<open>\<open>t in s\<close> on strings: \<open>t\<close> occurs in \<open>s\<close> as a contiguous piece.\<close>

fun py_in :: "string \<Rightarrow> string \<Rightarrow> bool" where
  "py_in t [] = (t = [])"
| "py_in t (c # cs) = (prefix t (c # cs) \<or> py_in t cs)"

text \<open>\<open>a or b\<close> on strings: the empty string is false.\<close>

definition py_or :: "string \<Rightarrow> string \<Rightarrow> string" where
  "py_or a b = (if a = [] then b else a)"

text \<open>
  The class \<open>\w\<close> and the assertion \<open>\b\<close> of \<open>re\<close>: a word boundary stands between two
  neighbours of which exactly one is a word character; the outside of the text counts as
  not a word character.
\<close>

definition isword :: "char \<Rightarrow> bool" where
  "isword c = (isalnum c \<or> c = CHR ''_'')"

definition isword_opt :: "char option \<Rightarrow> bool" where
  "isword_opt x = (case x of None \<Rightarrow> False | Some c \<Rightarrow> isword c)"

definition boundary :: "char option \<Rightarrow> string \<Rightarrow> bool" where
  "boundary prev rest = (isword_opt prev \<noteq> isword_opt (case rest of [] \<Rightarrow> None | c # _ \<Rightarrow> Some c))"

text \<open>
  \<open>re.search(r"\bW\b", s)\<close> for a literal \<open>W\<close>, as a truth value: \<open>prev\<close> is the character
  before the current position.
\<close>

definition word_here :: "string \<Rightarrow> char option \<Rightarrow> string \<Rightarrow> bool" where
  "word_here w prev s =
     (if w = [] then False
      else if prefix w s then boundary prev s \<and> boundary (Some (last w)) (drop (length w) s)
      else False)"

fun word_search_from :: "string \<Rightarrow> char option \<Rightarrow> string \<Rightarrow> bool" where
  "word_search_from w prev [] = False"
| "word_search_from w prev (c # cs) = (word_here w prev (c # cs) \<or> word_search_from w (Some c) cs)"

definition word_search :: "string \<Rightarrow> string \<Rightarrow> bool" where
  "word_search w s = word_search_from w None s"

section \<open>The student profile read by the planners\<close>

datatype py_error = FileNotFoundError | DatabaseError

text \<open>
  \<open>progress_db.get_progress\<close> queries the attempts table; the query itself is outside the
  planner, so its outcome for a student is an argument: either it raises, or it gives the
  profile, here the map from a topic to the \<open>strength\<close> entry of that topic.
\<close>

type_synonym get_progress = "string \<Rightarrow> py_error + (string \<rightharpoonup> string)"

definition topic_strength :: "get_progress \<Rightarrow> string \<Rightarrow> string \<Rightarrow> py_error + string" where
  "topic_strength gp student_id tp =
     (case gp student_id of
        Inl e \<Rightarrow> Inl e
      | Inr prof \<Rightarrow> Inr (case prof tp of None \<Rightarrow> ''medium'' | Some s \<Rightarrow> s))"

definition strength_difficulty :: "string \<Rightarrow> string" where
  "strength_difficulty strength =
     (if strength = ''weak'' then ''easy''
      else if strength = ''strong'' then ''hard''
      else ''medium'')"

record plan =
  action :: string
  topic :: string
  difficulty :: string

record agent_plan = plan +
  quiz_suggestion :: bool

definition VALID_TOPICS :: "string list" where
  "VALID_TOPICS =
    [''relations and functions'', ''inverse trigonometric function'', ''matrices'',
     ''determinants'', ''continuity and differentiability'', ''application of derivatives'',
     ''integrals'', ''application of integrals'', ''differential equations'',
     ''vector algebra'', ''three dimensional geometry'', ''linear programming'',
     ''probability'']"

definition normalize_topic :: "string \<Rightarrow> string" where
  "normalize_topic t = (if t = [] then [] else lower (strip t))"

text \<open>The loop \<open>for t in topics: if t in s: return t\<close>, with \<open>""\<close> when it falls through.\<close>

definition first_topic_in :: "string list \<Rightarrow> string \<Rightarrow> string" where
  "first_topic_in topics s = (case find (\<lambda>t. py_in t s) topics of None \<Rightarrow> [] | Some t \<Rightarrow> t)"

section \<open>Backend/planner.py\<close>

text \<open>
  This module keeps \<open>VALID_TOPICS\<close> in a Python set, whose iteration order the source does
  not fix; the order in which the topics are tried is the argument \<open>topics\<close>.
  The optional argument \<open>topic\<close> is \<open>None\<close> or a string.
\<close>

definition match_best_topic :: "string list \<Rightarrow> string \<Rightarrow> string" where
  "match_best_topic topics txt = first_topic_in topics (lower txt)"

definition quiz_intent_keywords :: "string list" where
  "quiz_intent_keywords = [''quiz'', ''practice'', ''test'', ''exercise'', ''questions'', ''mcq'']"

definition explain_keywords :: "string list" where
  "explain_keywords = [''explain'', ''understand'', ''stuck'', ''help'', ''why'', ''how'', ''define'']"

definition planner_decide ::
  "string list \<Rightarrow> get_progress \<Rightarrow> string \<Rightarrow> string \<Rightarrow> string option \<Rightarrow> py_error + plan" where
  "planner_decide topics gp student_id query tp =
     (let q = lower (strip query);
          chosen0 = py_or (py_or (case tp of None \<Rightarrow> [] | Some t \<Rightarrow> t) (match_best_topic topics q)) [];
          chosen1 = (if chosen0 = [] then q else chosen0);
          chosen_topic = normalize_topic chosen1;
          act = (if list_ex (\<lambda>k. py_in k q) quiz_intent_keywords then ''generate_quiz''
                 else if list_ex (\<lambda>k. py_in k q) explain_keywords then ''retrieve_and_explain''
                 else ''retrieve_and_explain'')
      in case (if student_id = [] then Inr ''medium'' else topic_strength gp student_id chosen_topic) of
           Inl e \<Rightarrow> Inl e
         | Inr strength \<Rightarrow>
             (let d0 = strength_difficulty strength;
                  d1 = (if py_in ''easy'' q then ''easy'' else d0);
                  d2 = (if py_in ''hard'' q \<or> py_in ''difficult'' q then ''hard'' else d1)
              in Inr \<lparr>action = act, topic = chosen_topic, difficulty = d2\<rparr>))"

section \<open>Backend/agents/planner.py\<close>

text \<open>
  Here \<open>VALID_TOPICS\<close> is a list, tried in its order, followed by two stem fallbacks.
  The import of \<open>topic_strength\<close> is guarded: when it fails the name is \<open>None\<close>, which is
  the argument \<open>gp = None\<close>. The lookup runs inside \<open>try ... except Exception\<close>, which
  leaves the difficulty at its initial \<open>"medium"\<close>.
\<close>

definition agent_match_best_topic :: "string \<Rightarrow> string" where
  "agent_match_best_topic txt =
     (if txt = [] then []
      else let s = lower txt in
        case find (\<lambda>t. py_in t s) VALID_TOPICS of
          Some t \<Rightarrow> t
        | None \<Rightarrow>
            if py_in ''matrix'' s \<or> py_in ''matrices'' s then ''matrices''
            else if py_in ''probability'' s \<or> py_in ''conditional probability'' s then ''probability''
            else [])"

definition quiz_keywords :: "string list" where
  "quiz_keywords = [''quiz'', ''practice'', ''test'', ''exercise'', ''questions'', ''mcq'', ''solve'']"

definition agent_explain_keywords :: "string list" where
  "agent_explain_keywords =
     [''explain'', ''understand'', ''stuck'', ''help'', ''why'', ''how'', ''define'', ''what is'']"

definition history_difficulty :: "get_progress option \<Rightarrow> string \<Rightarrow> string \<Rightarrow> string" where
  "history_difficulty gp student_id chosen_topic =
     (case gp of
        None \<Rightarrow> ''medium''
      | Some g \<Rightarrow>
          if student_id = [] then ''medium''
          else (case topic_strength g student_id chosen_topic of
                  Inl e \<Rightarrow> ''medium''
                | Inr strength \<Rightarrow> strength_difficulty strength))"

definition agent_planner_decide ::
  "get_progress option \<Rightarrow> string \<Rightarrow> string \<Rightarrow> string option \<Rightarrow> py_error + agent_plan" where
  "agent_planner_decide gp student_id query tp =
     (let q = strip query;
          chosen0 = py_or (py_or (case tp of None \<Rightarrow> [] | Some t \<Rightarrow> t) (agent_match_best_topic q)) [];
          chosen_topic = normalize_topic (py_or chosen0 q);
          low = lower q;
          act = (if list_ex (\<lambda>k. py_in k low) quiz_keywords then ''generate_quiz''
                 else if list_ex (\<lambda>k. py_in k low) agent_explain_keywords then ''retrieve_and_explain''
                 else ''retrieve_and_explain'');
          d0 = history_difficulty gp student_id chosen_topic;
          d1 = (if word_search ''easy'' low then ''easy'' else d0);
          d2 = (if word_search ''hard'' low \<or> word_search ''difficult'' low then ''hard'' else d1)
      in Inr \<lparr>action = act, topic = chosen_topic, difficulty = d2,
               quiz_suggestion = (act = ''retrieve_and_explain'')\<rparr>)"

section \<open>Backend/retriever.py: the text filter\<close>

text \<open>
  \<open>re.sub\<close> of a pattern \<open>X{n,}\<close> for a character class \<open>X\<close>: the matches are the maximal
  runs of \<open>X\<close> characters that are at least \<open>n\<close> long, and each is replaced by \<open>repl\<close>; a
  shorter run stays. \<open>run\<close> is the run read so far.
\<close>

definition flush_run :: "nat \<Rightarrow> string \<Rightarrow> string \<Rightarrow> string" where
  "flush_run n repl run = (if n \<le> length run then repl else run)"

fun sub_runs_from :: "(char \<Rightarrow> bool) \<Rightarrow> nat \<Rightarrow> string \<Rightarrow> string \<Rightarrow> string \<Rightarrow> string" where
  "sub_runs_from X n repl run [] = flush_run n repl run"
| "sub_runs_from X n repl run (c # cs) =
     (if X c then sub_runs_from X n repl (run @ [c]) cs
      else flush_run n repl run @ c # sub_runs_from X n repl [] cs)"

definition sub_runs :: "(char \<Rightarrow> bool) \<Rightarrow> nat \<Rightarrow> string \<Rightarrow> string \<Rightarrow> string" where
  "sub_runs X n repl s = sub_runs_from X n repl [] s"

text \<open>
  \<open>unicodedata.normalize("NFC", t)\<close>: a text of code points below 256 is in normal form
  already (the combining marks start at U+0300), so the normalisation returns it as it is.
  The round trip through UTF-8 with \<open>errors="ignore"\<close> drops lone surrogates only, and
  there are none in this range.
\<close>

definition normalize_NFC :: "string \<Rightarrow> string" where
  "normalize_NFC t = t"

definition safe_text :: "string \<Rightarrow> string" where
  "safe_text t0 =
     (let t1 = normalize_NFC t0;
          t2 = filter (\<lambda>ch. isprintable ch \<or> ch = CHR 0x0A \<or> ch = CHR 0x09) t1;
          t3 = sub_runs (\<lambda>ch. ch = CHR '' '' \<or> ch = CHR 0x09) 2 '' '' t2;
          t4 = sub_runs (\<lambda>ch. ch = CHR 0x0A) 3 [CHR 0x0A, CHR 0x0A] t3
      in strip t4)"

text \<open>
  The tokens of \<open>MATH_TOKENS\<close> that can occur in a text of this range: the multiplication
  and division signs are the code points 0xD7 and 0xF7; the integral sign, the capital
  sigma, the letter pi and the root sign of the source lie above 255.
\<close>

definition MATH_TOKENS :: "string list" where
  "MATH_TOKENS =
     [CHR 0x5C # ''frac'', CHR 0x5C # ''sum'', CHR 0x5C # ''int'', ''='', ''<'', ''>'',
      [CHR 0xD7], [CHR 0xF7], ''^'', ''_'', ''lim'', ''exp'']"

definition is_symbol :: "char \<Rightarrow> bool" where
  "is_symbol ch = (\<not> (isalnum ch \<or> isspace ch \<or> ch \<in> set ''.,;:-()[]{}'' \<or> ch = CHR 0x27
      \<or> ch = CHR 0x22 \<or> ch = CHR ''/''))"

text \<open>\<open>re.search(r"^\s*\d+[\.\)]", s)\<close> as a truth value.\<close>

definition numbered_item :: "string \<Rightarrow> bool" where
  "numbered_item s =
     (let r = dropWhile isspace s in
      takeWhile isdecimal r \<noteq> [] \<and>
      (case dropWhile isdecimal r of [] \<Rightarrow> False | c # _ \<Rightarrow> c = CHR ''.'' \<or> c = CHR '')''))"

text \<open>
  The two ratios are compared exactly: \<open>non_alnum / total_chars > 0.28\<close> as
  \<open>28 * total_chars < 100 * non_alnum\<close>. Python compares the nearest doubles, which gives
  the same answer for every text shorter than \<open>10^14\<close> characters.
\<close>

definition is_math_block :: "string \<Rightarrow> bool" where
  "is_math_block txt =
     (if txt = [] then False
      else
        let count_tokens = length (filter (\<lambda>t. py_in t txt) MATH_TOKENS);
            total_chars = max 1 (length txt);
            non_alnum = length (filter is_symbol txt);
            digits = length (filter isdigit txt)
        in if 1 \<le> count_tokens then True
           else if 28 * total_chars < 100 * non_alnum \<and> 5 * total_chars < 100 * digits then True
           else if numbered_item (strip txt) then True
           else False)"

definition clean_text_r :: "string \<Rightarrow> string" where
  "clean_text_r t0 =
     (if t0 = [] then []
      else
        let t1 = safe_text t0;
            t2 = sub_runs (\<lambda>ch. ch = CHR ''-'') 3 [] t1;
            t3 = sub_runs (\<lambda>ch. ch = CHR ''.'') 3 ''.'' t2
        in strip t3)"

definition exercise_verbs :: "string list" where
  "exercise_verbs = [''Find'', ''Calculate'', ''Determine'', ''Show that'', ''Prove'']"

text \<open>\<open>re.match(r"^\d+\.", s)\<close> as a truth value.\<close>

definition numbered_heading :: "string \<Rightarrow> bool" where
  "numbered_heading s =
     (takeWhile isdecimal s \<noteq> [] \<and>
      (case dropWhile isdecimal s of [] \<Rightarrow> False | c # _ \<Rightarrow> c = CHR ''.''))"

definition clean_chunk :: "string \<Rightarrow> string option" where
  "clean_chunk t0 =
     (if t0 = [] then None
      else
        let t1 = strip t0 in
        if list_ex (\<lambda>w. word_search w t1) exercise_verbs then None
        else if numbered_heading t1 then None
        else Some t1)"

section \<open>Backend/retriever.py: retrieval\<close>

text \<open>
  An entry of the chunk store is a string or a dictionary that may hold the keys
  \<open>chapter\<close>, \<open>text\<close> and \<open>type\<close> (the builder writes \<open>chapter\<close> and \<open>text\<close>, both
  strings). A returned chunk holds the three keys.
\<close>

datatype stored_chunk =
    StrChunk string
  | DictChunk "string option" "string option" "string option"

record chunk =
  c_chapter :: string
  c_text :: string
  c_type :: string

definition get_or :: "'a option \<Rightarrow> 'a \<Rightarrow> 'a" where
  "get_or v d = (case v of None \<Rightarrow> d | Some x \<Rightarrow> x)"

text \<open>The three reads of the loop body, after a string entry is wrapped in a dictionary.\<close>

definition entry_type :: "stored_chunk \<Rightarrow> string" where
  "entry_type ch = (case ch of StrChunk s \<Rightarrow> ''text'' | DictChunk c t ty \<Rightarrow> get_or ty ''text'')"

definition entry_text :: "stored_chunk \<Rightarrow> string" where
  "entry_text ch = (case ch of StrChunk s \<Rightarrow> s | DictChunk c t ty \<Rightarrow> get_or t [])"

definition entry_chapter :: "stored_chunk \<Rightarrow> string" where
  "entry_chapter ch = (case ch of StrChunk s \<Rightarrow> ''unknown'' | DictChunk c t ty \<Rightarrow> get_or c ''unknown'')"

text \<open>
  The part of the loop body before the deduplication: \<open>None\<close> for each \<open>continue\<close>,
  otherwise the chunk that is appended unless its key was seen.
\<close>

definition survivor :: "stored_chunk list \<Rightarrow> int \<Rightarrow> chunk option" where
  "survivor chunks_list i =
     (if i < 0 \<or> int (length chunks_list) \<le> i then None
      else
        let ch = chunks_list ! nat i in
        if entry_type ch \<noteq> ''text'' then None
        else
          let raw_text = entry_text ch; chap = entry_chapter ch in
          if is_math_block raw_text then None
          else (case clean_chunk (clean_text_r raw_text) of
                  None \<Rightarrow> None
                | Some cleaned \<Rightarrow>
                    if cleaned = [] \<or> length cleaned < 20 then None
                    else Some \<lparr>c_chapter = chap, c_text = cleaned, c_type = ''text''\<rparr>))"

definition dedup_key :: "chunk \<Rightarrow> string \<times> string" where
  "dedup_key r = (c_chapter r, take 120 (c_text r))"

fun retrieve_loop ::
  "stored_chunk list \<Rightarrow> int list \<Rightarrow> chunk list \<Rightarrow> (string \<times> string) set \<Rightarrow> chunk list" where
  "retrieve_loop chunks_list [] results seen = results"
| "retrieve_loop chunks_list (i # is) results seen =
     (case survivor chunks_list i of
        None \<Rightarrow> retrieve_loop chunks_list is results seen
      | Some r \<Rightarrow>
          if dedup_key r \<in> seen then retrieve_loop chunks_list is results seen
          else retrieve_loop chunks_list is (results @ [r]) (insert (dedup_key r) seen))"

text \<open>
  The files and the module globals. \<open>kb_chunks_npy\<close> and \<open>kb_index_faiss\<close> are the two
  files (\<open>None\<close>: the file does not exist); an index is its \<open>search\<close> for one query vector,
  giving the row \<open>I[0]\<close>; \<open>sentence_transformer\<close> is the \<open>encode\<close> of the model that
  \<open>_load_model\<close> constructs. The globals \<open>model\<close>, \<open>chunks\<close> and \<open>index\<close> start as \<open>None\<close>
  and keep what was loaded, also when a later step of the call raises.
\<close>

record 'e kb_env =
  sentence_transformer :: "string \<Rightarrow> 'e"
  kb_chunks_npy :: "stored_chunk list option"
  kb_index_faiss :: "('e \<Rightarrow> nat \<Rightarrow> int list) option"

record 'e globals =
  g_model :: "(string \<Rightarrow> 'e) option"
  g_chunks :: "stored_chunk list option"
  g_index :: "('e \<Rightarrow> nat \<Rightarrow> int list) option"

definition load_model :: "'e kb_env \<Rightarrow> 'e globals \<Rightarrow> (string \<Rightarrow> 'e) \<times> 'e globals" where
  "load_model env g =
     (case g_model g of
        None \<Rightarrow> (sentence_transformer env, g\<lparr>g_model := Some (sentence_transformer env)\<rparr>)
      | Some m \<Rightarrow> (m, g))"

definition load_kb ::
  "'e kb_env \<Rightarrow> 'e globals \<Rightarrow>
   (py_error + stored_chunk list \<times> ('e \<Rightarrow> nat \<Rightarrow> int list)) \<times> 'e globals" where
  "load_kb env g =
     (case (case g_chunks g of
              None \<Rightarrow> (case kb_chunks_npy env of
                          None \<Rightarrow> Inl FileNotFoundError
                        | Some cs \<Rightarrow> Inr (cs, g\<lparr>g_chunks := Some cs\<rparr>))
            | Some cs \<Rightarrow> Inr (cs, g)) of
        Inl e \<Rightarrow> (Inl e, g)
      | Inr (cs, g1) \<Rightarrow>
          (case g_index g1 of
             None \<Rightarrow> (case kb_index_faiss env of
                         None \<Rightarrow> (Inl FileNotFoundError, g1)
                       | Some ix \<Rightarrow> (Inr (cs, ix), g1\<lparr>g_index := Some ix\<rparr>))
           | Some ix \<Rightarrow> (Inr (cs, ix), g1)))"

definition retrieve ::
  "'e kb_env \<Rightarrow> 'e globals \<Rightarrow> string \<Rightarrow> nat \<Rightarrow> (py_error + chunk list) \<times> 'e globals" where
  "retrieve env g query top_k =
     (case load_model env g of
        (m, g1) \<Rightarrow>
          (case load_kb env g1 of
             (Inl e, g2) \<Rightarrow> (Inl e, g2)
           | (Inr (chunks_list, idx), g2) \<Rightarrow>
               (Inr (retrieve_loop chunks_list (idx (m query) top_k) [] {}), g2)))"

text \<open>The globals as the module is imported: nothing is loaded.\<close>

definition globals_init :: "'e globals" where
  "globals_init = \<lparr>g_model = None, g_chunks = None, g_index = None\<rparr>"

text \<open>
  What a state holds once the knowledge base is loaded: the chunk store, and the row of
  candidate indices that its model and index give for a query.
\<close>

definition loaded_chunks :: "'e globals \<Rightarrow> stored_chunk list" where
  "loaded_chunks g = get_or (g_chunks g) []"

definition candidate_row :: "'e globals \<Rightarrow> string \<Rightarrow> nat \<Rightarrow> int list" where
  "candidate_row g query top_k =
     (case (g_model g, g_index g) of
        (Some m, Some idx) \<Rightarrow> idx (m query) top_k
      | _ \<Rightarrow> [])"

text \<open>The candidates that pass the filters, in rank order.\<close>

definition survivors :: "stored_chunk list \<Rightarrow> int list \<Rightarrow> chunk list" where
  "survivors chunks_list I = List.map_filter (survivor chunks_list) I"

text \<open>
  The deduplication as the specification words it: going through the candidates in rank
  order, a chunk whose key was already emitted is dropped, every other chunk is emitted.
\<close>

fun dedup_first_seen :: "('a \<Rightarrow> 'k) \<Rightarrow> 'k set \<Rightarrow> 'a list \<Rightarrow> 'a list" where
  "dedup_first_seen key seen [] = []"
| "dedup_first_seen key seen (c # cs) =
     (if key c \<in> seen then dedup_first_seen key seen cs
      else c # dedup_first_seen key (insert (key c) seen) cs)"

text \<open>
  A small knowledge base: five stored chunks, an index that ranks them in this order for
  every query and pads its answer with \<open>-1\<close> as faiss does, and a model that embeds a
  query as itself.
\<close>

definition demo_chunks :: "stored_chunk list" where
  "demo_chunks =
     [DictChunk (Some ''3.pdf'') (Some ''A matrix is defined as an array of numbers.'') None,
      DictChunk (Some ''3.pdf'') (Some ''A matrix is defined as an array of numbers.'') None,
      DictChunk (Some ''5.pdf'') (Some ''The limit of a function.'') None,
      DictChunk (Some ''1.pdf'') (Some ''For example, a relation is a set.'') None,
      DictChunk (Some ''1.pdf'') (Some ''---1) some text long enough'') None]"

definition kb_demo :: "string kb_env" where
  "kb_demo = \<lparr>sentence_transformer = (\<lambda>q. q),
              kb_chunks_npy = Some demo_chunks,
              kb_index_faiss = Some (\<lambda>e k. take k ([0, 1, 2, 3, 4] @ replicate k (- 1)))\<rparr>"

definition demo_matrix :: chunk where
  "demo_matrix = \<lparr>c_chapter = ''3.pdf'',
     c_text = ''A matrix is defined as an array of numbers.'', c_type = ''text''\<rparr>"

definition demo_relation :: chunk where
  "demo_relation = \<lparr>c_chapter = ''1.pdf'',
     c_text = ''For example, a relation is a set.'', c_type = ''text''\<rparr>"

definition demo_numbered :: chunk where
  "demo_numbered = \<lparr>c_chapter = ''1.pdf'',
     c_text = ''1) some text long enough'', c_type = ''text''\<rparr>"







section \<open>Backend/agents/retrieval_agent.py and Backend/agents/explainer.py\<close>

text \<open>
  \<open>retrieve_text\<close> wraps the core retriever: it keeps the chapter, strips the normalised
  text, and answers with the empty list when the retriever raises. (The model takes the
  import of \<open>backend.retriever\<close> as successful.)
\<close>

record text_chunk =
  t_chapter :: string
  t_text :: string

definition safe_normalize :: "string \<Rightarrow> string" where
  "safe_normalize t = (if t = [] then [] else strip (normalize_NFC t))"

definition retrieve_text ::
  "'e kb_env \<Rightarrow> 'e globals \<Rightarrow> string \<Rightarrow> nat \<Rightarrow> text_chunk list \<times> 'e globals" where
  "retrieve_text env g query top_k =
     (case retrieve env g query top_k of
        (Inl e, g') \<Rightarrow> ([], g')
      | (Inr chunks, g') \<Rightarrow>
          (map (\<lambda>c. \<lparr>t_chapter = c_chapter c, t_text = safe_normalize (c_text c)\<rparr>) chunks, g'))"

text \<open>\<open>sep.join(parts)\<close>.\<close>

fun py_join :: "string \<Rightarrow> string list \<Rightarrow> string" where
  "py_join sep [] = []"
| "py_join sep [x] = x"
| "py_join sep (x # y # ys) = x @ sep @ py_join sep (y # ys)"

text \<open>The slice \<open>s[:n]\<close> for an integer \<open>n\<close>: a negative \<open>n\<close> counts from the end.\<close>

definition slice_to :: "string \<Rightarrow> int \<Rightarrow> string" where
  "slice_to s n = (if 0 \<le> n then take (nat n) s else take (nat (int (length s) + n)) s)"

text \<open>\<open>s.rsplit(" ", 1)[0]\<close>: the part before the last space, or all of \<open>s\<close> if it has none.\<close>

definition rsplit_space_head :: "string \<Rightarrow> string" where
  "rsplit_space_head s =
     (if CHR '' '' \<in> set s then rev (tl (dropWhile (\<lambda>c. c \<noteq> CHR '' '') (rev s))) else s)"

text \<open>The loop over \<open>chunks[:top_k]\<close>, with the lists \<open>parts\<close> and \<open>sources\<close> it appends to.\<close>

fun collect_parts :: "text_chunk list \<Rightarrow> string list \<Rightarrow> string list \<Rightarrow> string list \<times> string list" where
  "collect_parts [] parts sources = (parts, sources)"
| "collect_parts (c # cs) parts sources =
     (let t = strip (t_text c) in
      if t = [] then collect_parts cs parts sources
      else collect_parts cs (parts @ [t])
             (if t_chapter c = [] then sources else sources @ [t_chapter c]))"

record explanation =
  e_topic :: string
  e_explanation :: string
  e_chapter :: "string option"
  e_sources :: "string list"

definition truncate_explanation :: "string \<Rightarrow> int \<Rightarrow> string" where
  "truncate_explanation expl max_chars =
     (if max_chars < int (length expl) then rsplit_space_head (slice_to expl max_chars) @ ''...''
      else expl)"

definition explain_chunks :: "string \<Rightarrow> nat \<Rightarrow> int \<Rightarrow> text_chunk list \<Rightarrow> explanation" where
  "explain_chunks tp top_k max_chars chunks =
     (if chunks = [] then
        \<lparr>e_topic = tp, e_explanation = ''No explanation found.'', e_chapter = None, e_sources = []\<rparr>
      else
        case collect_parts (take top_k chunks) [] [] of
          (parts, sources) \<Rightarrow>
            \<lparr>e_topic = tp,
             e_explanation = truncate_explanation (py_join [CHR 0x0A, CHR 0x0A] parts) max_chars,
             e_chapter = (case sources of [] \<Rightarrow> None | ch # _ \<Rightarrow> Some ch),
             e_sources = sources\<rparr>)"

definition explain ::
  "'e kb_env \<Rightarrow> 'e globals \<Rightarrow> string \<Rightarrow> nat \<Rightarrow> int \<Rightarrow> explanation \<times> 'e globals" where
  "explain env g tp top_k max_chars =
     (case retrieve_text env g tp top_k of
        (chunks, g') \<Rightarrow> (explain_chunks tp top_k max_chars chunks, g'))"

text \<open>A knowledge base with one stored chunk, whose first word is twelve letters long.\<close>

definition kb_det :: "string kb_env" where
  "kb_det = \<lparr>sentence_transformer = (\<lambda>q. q),
             kb_chunks_npy = Some [DictChunk (Some ''4.pdf'') (Some ''Determinants of square matrices.'') None],
             kb_index_faiss = Some (\<lambda>e k. take k ([0] @ replicate k (- 1)))\<rparr>"

section \<open>Backend/quiz_generator.py: text helpers\<close>

definition BASE_DISTRACTORS :: "string list" where
  "BASE_DISTRACTORS =
     [''Limit'', ''Derivative'', ''Integral'', ''Matrix'', ''Determinant'',
      ''Probability'', ''Permutation'', ''Combination'', ''Vector'',
      ''Scalar'', ''Continuity'', ''Differentiability'', ''Gradient'', ''Rank'']"

text \<open>
  \<open>re.sub(r"\bFig\b.*", "", t)\<close>: from every word \<open>Fig\<close> to the end of its line (the dot
  does not match a newline). \<open>skip\<close> says that the scan is inside a match.
\<close>

fun sub_fig :: "bool \<Rightarrow> char option \<Rightarrow> string \<Rightarrow> string" where
  "sub_fig skip prev [] = []"
| "sub_fig skip prev (c # cs) =
     (if skip then
        (if c = CHR 0x0A then c # sub_fig False (Some c) cs else sub_fig True (Some c) cs)
      else if word_here ''Fig'' prev (c # cs) then sub_fig True (Some c) cs
      else c # sub_fig False (Some c) cs)"

text \<open>
  \<open>clean_text\<close>. Its first substitution removes six private-use code points (U+F8EE to
  U+F8F0 and U+F8F9 to U+F8FB); none of them is in the range of the model, so it leaves
  the text as it is.
\<close>

definition clean_text :: "string \<Rightarrow> string" where
  "clean_text t0 =
     (if t0 = [] then []
      else
        let t1 = sub_fig False None t0;
            t2 = sub_runs isspace 2 '' '' t1
        in strip t2)"

text \<open>\<open>s.split()\<close>: the maximal runs of characters that are not whitespace.\<close>

fun split_ws :: "string \<Rightarrow> string \<Rightarrow> string list" where
  "split_ws w [] = (if w = [] then [] else [w])"
| "split_ws w (c # cs) =
     (if isspace c then (if w = [] then split_ws [] cs else w # split_ws [] cs)
      else split_ws (w @ [c]) cs)"

definition py_split :: "string \<Rightarrow> string list" where
  "py_split s = split_ws [] s"

definition interrogatives :: "string list" where
  "interrogatives = [''what'', ''which'', ''this'', ''that'', ''how'', ''why'', ''where'', ''when'']"

definition is_bad_concept :: "string \<Rightarrow> bool" where
  "is_bad_concept c0 =
     (let c = strip (lower c0) in
      if length c < 3 then True
      else if list_ex (\<lambda>w. py_in w c) interrogatives then True
      else if list_ex isdecimal c then True
      else if 5 < length (py_split c) then True
      else False)"

text \<open>
  \<open>re.split(r"(?<=[.!?])\s+", text)\<close>: the text is cut at every maximal run of whitespace
  that follows a full stop, an exclamation mark or a question mark. \<open>skip\<close> says that the
  scan is inside such a run, \<open>cur\<close> is the piece read so far.
\<close>

fun split_sentences :: "bool \<Rightarrow> string \<Rightarrow> char option \<Rightarrow> string \<Rightarrow> string list" where
  "split_sentences skip cur prev [] = [cur]"
| "split_sentences skip cur prev (c # cs) =
     (if skip \<and> isspace c then split_sentences True cur (Some c) cs
      else if isspace c \<and> (prev = Some CHR ''.'' \<or> prev = Some CHR ''!'' \<or> prev = Some CHR ''?'')
        then cur # split_sentences True [] (Some c) cs
      else split_sentences False (cur @ [c]) (Some c) cs)"

definition extract_candidate_sentences :: "string \<Rightarrow> string list" where
  "extract_candidate_sentences txt =
     filter (\<lambda>s2. 20 < length s2 \<and> length s2 < 300)
       (map clean_text (split_sentences False [] None txt))"

section \<open>Backend/quiz_generator.py: the definition patterns\<close>

text \<open>
  The five patterns have one shape: an optional literal, the group
  \<open>([A-Za-z][A-Za-z\s]{lo,hi})\<close>, one of several literals, and \<open>(.+)\<close>. A literal alternative is
  given in three parts \<open>(pre, grp, post)\<close>: \<open>grp\<close> is not empty where the pattern puts a
  group of its own there (\<open>(an|a)\<close> in the second pattern), which then is group 2.
  All patterns are compiled with \<open>re.IGNORECASE\<close>; in the range of the model the letters
  that \<open>[A-Za-z]\<close> then matches are the ASCII letters.
\<close>

record def_pattern =
  p_prefix :: string
  p_lo :: nat
  p_hi :: nat
  p_alts :: "(string \<times> string \<times> string) list"

definition DEF_PATTERNS :: "def_pattern list" where
  "DEF_PATTERNS =
     [\<lparr>p_prefix = [], p_lo = 2, p_hi = 50, p_alts = [('' is defined as '', [], [])]\<rparr>,
      \<lparr>p_prefix = [], p_lo = 2, p_hi = 50,
        p_alts = [('' is '', ''an'', '' ''), ('' is '', ''a'', '' '')]\<rparr>,
      \<lparr>p_prefix = ''The definition of '', p_lo = 1, p_hi = 50, p_alts = [('' is '', [], [])]\<rparr>,
      \<lparr>p_prefix = [], p_lo = 2, p_hi = 50, p_alts = [('' refers to '', [], [])]\<rparr>]"

definition DEF_RE_SIMPLE :: def_pattern where
  "DEF_RE_SIMPLE = \<lparr>p_prefix = [], p_lo = 1, p_hi = 40, p_alts = [('' is '', [], [])]\<rparr>"

definition is_letter :: "char \<Rightarrow> bool" where
  "is_letter c = (let n = code c in (65 \<le> n \<and> n \<le> 90) \<or> (97 \<le> n \<and> n \<le> 122))"

text \<open>A literal of a pattern matches at the head of \<open>s\<close>, ignoring case.\<close>

fun lit_prefix :: "string \<Rightarrow> string \<Rightarrow> bool" where
  "lit_prefix [] s = True"
| "lit_prefix (a # as) [] = False"
| "lit_prefix (a # as) (c # cs) = (if lower_char c = lower_char a then lit_prefix as cs else False)"

text \<open>
  The alternatives after the concept, tried in order at the text \<open>s\<close>: the literal, then
  \<open>.+\<close>, which takes the rest of the line and needs one character. The result is group 2.
\<close>

fun match_alts :: "(string \<times> string \<times> string) list \<Rightarrow> string \<Rightarrow> string option" where
  "match_alts [] s = None"
| "match_alts ((pre, grp, post) # alts) s =
     (if lit_prefix (pre @ grp @ post) s then
        (case takeWhile (\<lambda>c. c \<noteq> CHR 0x0A) (drop (length (pre @ grp @ post)) s) of
           [] \<Rightarrow> match_alts alts s
         | r # rs \<Rightarrow> Some (if grp = [] then r # rs else take (length grp) (drop (length pre) s)))
      else match_alts alts s)"

text \<open>
  The greedy repetition \<open>[A-Za-z\s]{lo,hi}\<close> over \<open>cs\<close>, the text after the first letter: the
  longest count \<open>k\<close> first, down to \<open>lo\<close>. The result is the count and group 2.
\<close>

fun match_count :: "(string \<times> string \<times> string) list \<Rightarrow> nat \<Rightarrow> string \<Rightarrow> nat \<Rightarrow> (nat \<times> string) option" where
  "match_count alts lo cs 0 =
     (if lo = 0 then map_option (\<lambda>d. (0, d)) (match_alts alts cs) else None)"
| "match_count alts lo cs (Suc k) =
     (if Suc k < lo then None
      else case match_alts alts (drop (Suc k) cs) of
             Some d \<Rightarrow> Some (Suc k, d)
           | None \<Rightarrow> match_count alts lo cs k)"

text \<open>The pattern at the head of \<open>s\<close>: groups 1 and 2.\<close>

definition match_here :: "def_pattern \<Rightarrow> string \<Rightarrow> (string \<times> string) option" where
  "match_here pat s =
     (if lit_prefix (p_prefix pat) s then
        (case drop (length (p_prefix pat)) s of
           [] \<Rightarrow> None
         | c # cs \<Rightarrow>
             if is_letter c then
               (case match_count (p_alts pat) (p_lo pat) cs
                       (min (p_hi pat) (length (takeWhile (\<lambda>x. is_letter x \<or> isspace x) cs))) of
                  None \<Rightarrow> None
                | Some (k, d) \<Rightarrow> Some (c # take k cs, d))
             else None)
      else None)"

text \<open>\<open>pat.search(s)\<close> for a pattern that starts with \<open>\b\<close>: the leftmost position that matches.\<close>

fun search_from :: "def_pattern \<Rightarrow> char option \<Rightarrow> string \<Rightarrow> (string \<times> string) option" where
  "search_from pat prev [] = None"
| "search_from pat prev (c # cs) =
     (case (if boundary prev (c # cs) then match_here pat (c # cs) else None) of
        Some r \<Rightarrow> Some r
      | None \<Rightarrow> search_from pat (Some c) cs)"

definition pat_search :: "def_pattern \<Rightarrow> string \<Rightarrow> (string \<times> string) option" where
  "pat_search pat s = search_from pat None s"

section \<open>Backend/quiz_generator.py: random choices\<close>

text \<open>
  The module \<open>random\<close> is a source of draws: the state is the list of the draws to come, and
  \<open>randbelow(n)\<close> turns the next draw into a number below \<open>n\<close> (a spent source gives 0).
  \<open>random.shuffle(x)\<close> is the loop
  \<open>for i in reversed(range(1, len(x))): j = randbelow(i + 1); x[i], x[j] = x[j], x[i]\<close>,
  and \<open>random.randint(a, b)\<close> is \<open>a + randbelow(b - a + 1)\<close>.
\<close>

type_synonym rng = "nat list"

definition randbelow :: "nat \<Rightarrow> rng \<Rightarrow> nat \<times> rng" where
  "randbelow n rng = (case rng of [] \<Rightarrow> (0, []) | r # rs \<Rightarrow> (r mod n, rs))"

definition swap :: "'a list \<Rightarrow> nat \<Rightarrow> nat \<Rightarrow> 'a list" where
  "swap xs i j = xs[i := xs ! j, j := xs ! i]"

fun shuffle_from :: "nat \<Rightarrow> 'a list \<Rightarrow> rng \<Rightarrow> 'a list \<times> rng" where
  "shuffle_from 0 xs rng = (xs, rng)"
| "shuffle_from (Suc i) xs rng =
     (case randbelow (Suc (Suc i)) rng of (j, rng') \<Rightarrow> shuffle_from i (swap xs (Suc i) j) rng')"

definition shuffle :: "'a list \<Rightarrow> rng \<Rightarrow> 'a list \<times> rng" where
  "shuffle xs rng = shuffle_from (length xs - 1) xs rng"

text \<open>\<open>str(n)\<close> of a natural number, and \<open>chr(n)\<close> below 256.\<close>

fun str_nat :: "nat \<Rightarrow> string" where
  "str_nat n = (if n < 10 then [''0123456789'' ! n] else str_nat (n div 10) @ [''0123456789'' ! (n mod 10)])"

declare str_nat.simps [simp del]

definition chr :: "nat \<Rightarrow> char" where
  "chr n = char_of n"

text \<open>The loop \<open>while len(distractors) < 3\<close>, which appends a random label.\<close>

function pad_distractors :: "string list \<Rightarrow> rng \<Rightarrow> string list \<times> rng" where
  "pad_distractors ds rng =
     (if length ds < 3 then
        (case randbelow 90 rng of (r, rng') \<Rightarrow> pad_distractors (ds @ [''Option '' @ str_nat (10 + r)]) rng')
      else (ds, rng))"
  by pat_completeness auto
termination
  by (relation "measure (\<lambda>(ds, rng). 3 - length ds)") auto

declare pad_distractors.simps [simp del]

definition generate_distractors_for :: "string \<Rightarrow> string \<Rightarrow> rng \<Rightarrow> string list \<times> rng" where
  "generate_distractors_for concept correct rng =
     (case shuffle (filter (\<lambda>d. lower d \<noteq> lower concept) BASE_DISTRACTORS) rng of
        (picks, rng') \<Rightarrow> pad_distractors (take 3 picks) rng')"

section \<open>Backend/quiz_generator.py: questions\<close>

record mcq =
  m_chapter :: string
  m_question :: string
  m_options :: "string list"
  m_answer :: string
  m_explanation :: string

text \<open>
  \<open>options.index(correct)\<close>: the first position of \<open>correct\<close>. Python raises when the value
  is absent; it never is here, since the options are a permutation of a list that holds
  it (\<open>build_mcq_options\<close>).
\<close>

definition index_of :: "'a \<Rightarrow> 'a list \<Rightarrow> nat" where
  "index_of x xs = length (takeWhile (\<lambda>y. y \<noteq> x) xs)"

text \<open>
  The lines that the two branches of \<open>sentence_to_mcq\<close> and \<open>fallback_mcq\<close> share: the
  distractors, the shuffled options, and the dictionary.
\<close>

definition build_mcq :: "string \<Rightarrow> string \<Rightarrow> string \<Rightarrow> string \<Rightarrow> rng \<Rightarrow> mcq \<times> rng" where
  "build_mcq chap quest concept correct rng =
     (case generate_distractors_for concept correct rng of
        (distractors, rng1) \<Rightarrow>
          (case shuffle (distractors @ [correct]) rng1 of
             (opts, rng2) \<Rightarrow>
               (\<lparr>m_chapter = chap, m_question = quest, m_options = opts,
                 m_answer = [chr (index_of correct opts + 65)], m_explanation = correct\<rparr>, rng2)))"

text \<open>The loop over \<open>DEF_PATTERNS\<close>: the first pattern whose match is accepted gives the MCQ.\<close>

fun try_patterns :: "def_pattern list \<Rightarrow> string \<Rightarrow> string \<Rightarrow> rng \<Rightarrow> mcq option \<times> rng" where
  "try_patterns [] sentence chap rng = (None, rng)"
| "try_patterns (pat # pats) sentence chap rng =
     (case pat_search pat sentence of
        None \<Rightarrow> try_patterns pats sentence chap rng
      | Some (g1, g2) \<Rightarrow>
          (let concept = strip g1; defn = strip g2 in
           if \<not> is_bad_concept concept \<and> 12 < length defn then
             (case build_mcq chap (''What is '' @ strip concept @ ''?'') concept defn rng of
                (m, rng') \<Rightarrow> (Some m, rng'))
           else try_patterns pats sentence chap rng))"

text \<open>\<open>DEF_RE_SIMPLE\<close> starts with \<open>^\<close>: it is tried at the head of the sentence only.\<close>

definition sentence_to_mcq :: "string \<Rightarrow> string \<Rightarrow> rng \<Rightarrow> mcq option \<times> rng" where
  "sentence_to_mcq sentence chap rng =
     (case try_patterns DEF_PATTERNS sentence chap rng of
        (Some m, rng') \<Rightarrow> (Some m, rng')
      | (None, rng') \<Rightarrow>
          (case match_here DEF_RE_SIMPLE sentence of
             None \<Rightarrow> (None, rng')
           | Some (g1, g2) \<Rightarrow>
               (let concept = strip g1; defn = strip g2 in
                if \<not> is_bad_concept concept \<and> 12 < length defn then
                  (case build_mcq chap (''What is '' @ concept @ ''?'') concept defn rng' of
                     (m, rng'') \<Rightarrow> (Some m, rng''))
                else (None, rng'))))"

definition fallback_mcq :: "string \<Rightarrow> string \<Rightarrow> rng \<Rightarrow> mcq \<times> rng" where
  "fallback_mcq tp chap rng =
     (let concept = py_or (strip (py_join '' '' (take 3 (py_split tp)))) ''the topic'';
          correct = ''A brief description of '' @ concept @ ''.''
      in build_mcq chap (''Which of the following best describes '' @ concept @ ''?'')
           concept correct rng)"

text \<open>\<open>re.findall(r"[A-Za-z]{3,}", topic)\<close>: the maximal runs of at least three ASCII letters.\<close>

fun find_words :: "string \<Rightarrow> string \<Rightarrow> string list" where
  "find_words run [] = (if 3 \<le> length run then [run] else [])"
| "find_words run (c # cs) =
     (if is_letter c then find_words (run @ [c]) cs
      else (if 3 \<le> length run then [run] else []) @ find_words [] cs)"

text \<open>The expression \<open>guess or topic\<close> of the fallback branch.\<close>

definition topic_guess :: "string \<Rightarrow> string" where
  "topic_guess tp =
     (let words = find_words [] tp;
          guess = (if words = [] then tp else py_join '' '' (take 3 words))
      in py_or guess tp)"

text \<open>
  The inner loop over the sentences of a chunk and the outer loop over the chunks. The
  third component of the result says that the function returned from inside the loop.
\<close>

fun sentences_loop :: "string \<Rightarrow> int \<Rightarrow> string list \<Rightarrow> mcq list \<Rightarrow> rng \<Rightarrow> mcq list \<times> rng \<times> bool" where
  "sentences_loop chap n [] mcqs rng = (mcqs, rng, False)"
| "sentences_loop chap n (s # ss) mcqs rng =
     (case sentence_to_mcq s chap rng of
        (mo, rng') \<Rightarrow>
          (let mcqs' = (case mo of None \<Rightarrow> mcqs | Some m \<Rightarrow> mcqs @ [m]) in
           if n \<le> int (length mcqs') then (mcqs', rng', True)
           else sentences_loop chap n ss mcqs' rng'))"

fun chunks_loop :: "int \<Rightarrow> chunk list \<Rightarrow> mcq list \<Rightarrow> rng \<Rightarrow> mcq list \<times> rng \<times> bool" where
  "chunks_loop n [] mcqs rng = (mcqs, rng, False)"
| "chunks_loop n (ch # chs) mcqs rng =
     (case sentences_loop (c_chapter ch) n (extract_candidate_sentences (clean_text (c_text ch)))
             mcqs rng of
        (mcqs', rng', True) \<Rightarrow> (mcqs', rng', True)
      | (mcqs', rng', False) \<Rightarrow> chunks_loop n chs mcqs' rng')"

text \<open>The loop \<open>for i in range(n_questions)\<close> of the fallback branch.\<close>

fun fallbacks :: "nat \<Rightarrow> string \<Rightarrow> string \<Rightarrow> mcq list \<Rightarrow> rng \<Rightarrow> mcq list \<times> rng" where
  "fallbacks 0 tp chap mcqs rng = (mcqs, rng)"
| "fallbacks (Suc k) tp chap mcqs rng =
     (case fallback_mcq tp chap rng of (q, rng') \<Rightarrow> fallbacks k tp chap (mcqs @ [q]) rng')"

definition sentinel_mcq :: "string \<Rightarrow> mcq" where
  "sentinel_mcq tp =
     \<lparr>m_chapter = [],
      m_question = ''No clear MCQs found for '' @ [CHR 0x27] @ tp @ [CHR 0x27] @ ''.'',
      m_options = [''-'', ''-'', ''-'', ''-''],
      m_answer = ''A'',
      m_explanation = ''No definitional or formula-based content detected.''\<rparr>"

text \<open>The slice \<open>xs[:n]\<close> of a list.\<close>

definition list_slice_to :: "'a list \<Rightarrow> int \<Rightarrow> 'a list" where
  "list_slice_to xs n = (if 0 \<le> n then take (nat n) xs else take (nat (int (length xs) + n)) xs)"

text \<open>The body of \<open>generate_quiz_for_topic\<close> after the retrieval.\<close>

definition quiz_from_chunks :: "string \<Rightarrow> int \<Rightarrow> chunk list \<Rightarrow> rng \<Rightarrow> mcq list \<times> rng" where
  "quiz_from_chunks tp n chunks rng =
     (case chunks_loop n chunks [] rng of
        (mcqs, rng', True) \<Rightarrow> (mcqs, rng')
      | (mcqs, rng', False) \<Rightarrow>
          (case (mcqs, chunks) of
             ([], ch0 # _) \<Rightarrow> fallbacks (nat n) (topic_guess tp) (c_chapter ch0) [] rng'
           | ([], []) \<Rightarrow> ([sentinel_mcq tp], rng')
           | (_ # _, _) \<Rightarrow> (list_slice_to mcqs n, rng')))"

text \<open>
  \<open>generate_quiz_for_topic\<close>: the retrieval asks for 20 chunks and its error is the error of
  the call; the argument \<open>difficulty\<close> is not used.
\<close>

definition generate_quiz_for_topic ::
  "'e kb_env \<Rightarrow> 'e globals \<Rightarrow> rng \<Rightarrow> string \<Rightarrow> int \<Rightarrow> string option \<Rightarrow>
   (py_error + mcq list) \<times> 'e globals \<times> rng" where
  "generate_quiz_for_topic env g rng tp n_questions diff =
     (case retrieve env g tp 20 of
        (Inl e, g') \<Rightarrow> (Inl e, g', rng)
      | (Inr chunks, g') \<Rightarrow>
          (case quiz_from_chunks tp n_questions chunks rng of
             (mcqs, rng') \<Rightarrow> (Inr mcqs, g', rng')))"

text \<open>
  What the specification asks of an MCQ: four options, an answer that is one of the
  letters A to D, the option at the index of that letter equal to the explanation, and
  options that are pairwise distinct.
\<close>

definition letter_index :: "string \<Rightarrow> nat" where
  "letter_index a = (case a of [c] \<Rightarrow> nat (code c - 65) | _ \<Rightarrow> 0)"

definition answer_ok :: "mcq \<Rightarrow> bool" where
  "answer_ok m =
     (length (m_options m) = 4 \<and> m_answer m \<in> set [''A'', ''B'', ''C'', ''D''] \<and>
      m_options m ! letter_index (m_answer m) = m_explanation m)"

text \<open>
  What every MCQ built from a sentence or as a fallback satisfies: the options are
  pairwise distinct unless the correct text is the one term of the distractor bank that
  is longer than twelve characters.
\<close>

definition mcq_ok :: "mcq \<Rightarrow> bool" where
  "mcq_ok m = (answer_ok m \<and> (distinct (m_options m) \<or> m_explanation m = ''Differentiability''))"

text \<open>A knowledge base with an empty chunk store: every retrieval is empty.\<close>

definition kb_empty :: "string kb_env" where
  "kb_empty = \<lparr>sentence_transformer = (\<lambda>q. q),
               kb_chunks_npy = Some [],
               kb_index_faiss = Some (\<lambda>e k. replicate k (- 1))\<rparr>"

text \<open>Draws for the examples, and the questions they lead to.\<close>

definition demo_rng :: rng where
  "demo_rng = [0, 1, 2, 3, 4, 5, 6, 7, 8, 9, 10, 11, 12, 13, 14, 15, 16, 17]"

definition demo_mcq :: mcq where
  "demo_mcq =
     \<lparr>m_chapter = ''3.pdf'', m_question = ''What is A matrix?'',
      m_options = [''Gradient'', ''an array of numbers.'', ''Continuity'', ''Combination''],
      m_answer = ''B'', m_explanation = ''an array of numbers.''\<rparr>"

definition det_chunk :: chunk where
  "det_chunk = \<lparr>c_chapter = ''4.pdf'', c_text = ''Determinants of square matrices.'', c_type = ''text''\<rparr>"

definition det_fallbacks :: "mcq list" where
  "det_fallbacks =
     [\<lparr>m_chapter = ''4.pdf'',
       m_question = ''Which of the following best describes determinants?'',
       m_options = [''Gradient'', ''A brief description of determinants.'', ''Continuity'',
                    ''Combination''],
       m_answer = ''B'', m_explanation = ''A brief description of determinants.''\<rparr>,
      \<lparr>m_chapter = ''4.pdf'',
       m_question = ''Which of the following best describes determinants?'',
       m_options = [''Rank'', ''Matrix'', ''A brief description of determinants.'', ''Derivative''],
       m_answer = ''C'', m_explanation = ''A brief description of determinants.''\<rparr>]"

section \<open>Facts about the text primitives\<close>

lemma py_in_iff_sublist: "py_in t s \<longleftrightarrow> sublist t s"
  by (induction s) (auto simp: sublist_Cons_right)

section \<open>The planner of Backend/agents/planner.py\<close>

text \<open>The agents planner always returns a plan: the profile lookup is guarded.\<close>

lemma agent_planner_decide_returns: "\<exists>p. agent_planner_decide gp student_id query tp = Inr p"
  by (simp add: agent_planner_decide_def Let_def)

text \<open>
  Its action is \<open>generate_quiz\<close> exactly when one of the seven quiz keywords occurs in the
  stripped, lower-cased query; the explanation keywords do not change the outcome.
\<close>

lemma agent_planner_action:
  "agent_planner_decide gp student_id query tp = Inr p \<Longrightarrow>
   action p = (if list_ex (\<lambda>k. py_in k (lower (strip query))) quiz_keywords
               then ''generate_quiz'' else ''retrieve_and_explain'')"
  by (auto simp: agent_planner_decide_def Let_def)

lemma agent_planner_explain_matrices:
  "agent_planner_decide None [] ''explain matrices'' None =
     Inr \<lparr>action = ''retrieve_and_explain'', topic = ''matrices'', difficulty = ''medium'',
           quiz_suggestion = True\<rparr>"
  by code_simp

lemma agent_planner_hard_quiz:
  "agent_planner_decide None [] ''give me a hard quiz on probability'' None =
     Inr \<lparr>action = ''generate_quiz'', topic = ''probability'', difficulty = ''hard'',
           quiz_suggestion = False\<rparr>"
  by code_simp

lemma agent_planner_solve:
  "agent_planner_decide (Some (\<lambda>s. Inr Map.empty)) ''s1'' ''solve integrals'' None =
     Inr \<lparr>action = ''generate_quiz'', topic = ''integrals'', difficulty = ''medium'',
           quiz_suggestion = False\<rparr>"
  by code_simp

text \<open>
  Its difficulty: the word \<open>hard\<close> or \<open>difficult\<close> wins, then the word \<open>easy\<close>, then the
  value derived from the profile.
\<close>

lemma agent_planner_difficulty:
  "agent_planner_decide gp student_id query tp = Inr p \<Longrightarrow>
   difficulty p =
     (if word_search ''hard'' (lower (strip query)) \<or> word_search ''difficult'' (lower (strip query))
      then ''hard''
      else if word_search ''easy'' (lower (strip query)) then ''easy''
      else history_difficulty gp student_id (topic p))"
  by (auto simp: agent_planner_decide_def Let_def)

lemma history_difficulty_cases:
  "history_difficulty None student_id tp = ''medium''"
  "history_difficulty gp [] tp = ''medium''"
  "g student_id = Inl e \<Longrightarrow> history_difficulty (Some g) student_id tp = ''medium''"
  "g student_id = Inr prof \<Longrightarrow> prof tp = None \<Longrightarrow>
     history_difficulty (Some g) student_id tp = ''medium''"
  "student_id \<noteq> [] \<Longrightarrow> g student_id = Inr prof \<Longrightarrow> prof tp = Some s \<Longrightarrow>
     history_difficulty (Some g) student_id tp = strength_difficulty s"
  by (auto simp: history_difficulty_def topic_strength_def strength_difficulty_def
           split: option.splits)

lemma agent_planner_override_beats_history:
  "agent_planner_decide (Some (\<lambda>s. Inr [''matrices'' \<mapsto> ''weak''])) ''s1''
       ''explain matrices hard'' None =
     Inr \<lparr>action = ''retrieve_and_explain'', topic = ''matrices'', difficulty = ''hard'',
           quiz_suggestion = True\<rparr>"
  by code_simp

lemma agent_planner_easy_and_hard:
  "agent_planner_decide None [] ''an easy or a hard one'' None =
     Inr \<lparr>action = ''retrieve_and_explain'', topic = ''an easy or a hard one'',
           difficulty = ''hard'', quiz_suggestion = True\<rparr>"
  by code_simp

lemma agent_planner_uneasy:
  "agent_planner_decide (Some (\<lambda>s. Inr [''matrices'' \<mapsto> ''strong''])) ''s1''
       ''uneasy about matrices'' None =
     Inr \<lparr>action = ''retrieve_and_explain'', topic = ''matrices'', difficulty = ''hard'',
           quiz_suggestion = True\<rparr>"
  by code_simp

lemma agent_planner_lookup_fails:
  "agent_planner_decide (Some (\<lambda>s. Inl DatabaseError)) ''s1'' ''explain matrices'' None =
     Inr \<lparr>action = ''retrieve_and_explain'', topic = ''matrices'', difficulty = ''medium'',
           quiz_suggestion = True\<rparr>"
  by code_simp

section \<open>The planner of Backend/planner.py\<close>

text \<open>
  Its action is decided by six keywords (\<open>solve\<close> is not among them), whatever the order
  of the topic set.
\<close>

lemma planner_action:
  "planner_decide topics gp student_id query tp = Inr p \<Longrightarrow>
   action p = (if list_ex (\<lambda>k. py_in k (lower (strip query))) quiz_intent_keywords
               then ''generate_quiz'' else ''retrieve_and_explain'')"
  by (auto simp: planner_decide_def Let_def split: sum.splits if_splits)

text \<open>
  Its difficulty is overridden where \<open>easy\<close>, \<open>hard\<close> or \<open>difficult\<close> occur in the query as
  substrings, inside a longer word as well.
\<close>

lemma planner_difficulty:
  assumes "planner_decide topics gp student_id query tp = Inr p"
  shows "difficulty p =
     (if py_in ''hard'' (lower (strip query)) \<or> py_in ''difficult'' (lower (strip query)) then ''hard''
      else if py_in ''easy'' (lower (strip query)) then ''easy''
      else if student_id = [] then ''medium''
      else (case topic_strength gp student_id (topic p) of
              Inl e \<Rightarrow> ''medium'' | Inr strength \<Rightarrow> strength_difficulty strength))"
proof -
  have m: "strength_difficulty ''medium'' = ''medium''" by (simp add: strength_difficulty_def)
  show ?thesis
    using assms by (auto simp: planner_decide_def Let_def m split: sum.splits if_splits)
qed

text \<open>
  C5. The claim: a query that contains one of the quiz keywords quiz, practice, test,
  exercise, questions, mcq or solve is planned as \<open>generate_quiz\<close>, every other query as
  \<open>retrieve_and_explain\<close>. The planner of Backend/agents/planner.py does so
  (\<open>agent_planner_action\<close>, \<open>agent_planner_solve\<close>); the planner of Backend/planner.py,
  evaluated here at the query \<open>solve integrals\<close>, answers \<open>retrieve_and_explain\<close>.
\<close>

theorem planner_decide_solve_not_quiz:
  "planner_decide VALID_TOPICS (\<lambda>s. Inr Map.empty) ''s1'' ''solve integrals'' None =
     Inr \<lparr>action = ''retrieve_and_explain'', topic = ''integrals'', difficulty = ''medium''\<rparr>"
  by code_simp

text \<open>
  C6. The claim: the difficulty derived from the profile is overridden by the standalone
  word \<open>easy\<close>, and then by \<open>hard\<close> or \<open>difficult\<close>. The planner of
  Backend/agents/planner.py searches for whole words (\<open>agent_planner_difficulty\<close>,
  \<open>agent_planner_uneasy\<close>); the planner of Backend/planner.py tests for substrings:
  evaluated here for a student who is strong in matrices, the query
  \<open>uneasy about matrices\<close>, which has no standalone \<open>easy\<close>, is planned as \<open>easy\<close>.
\<close>

theorem planner_decide_uneasy_is_easy:
  "planner_decide VALID_TOPICS (\<lambda>s. Inr [''matrices'' \<mapsto> ''strong'']) ''s1''
       ''uneasy about matrices'' None =
     Inr \<lparr>action = ''retrieve_and_explain'', topic = ''matrices'', difficulty = ''easy''\<rparr>"
  by code_simp

text \<open>
  C7. The claim: the planner never raises, a failing profile lookup counts as strength
  medium. The planner of Backend/agents/planner.py always returns
  (\<open>agent_planner_decide_returns\<close>, \<open>history_difficulty_cases\<close>); the planner of
  Backend/planner.py calls \<open>topic_strength\<close> unguarded, and the error of the lookup is
  its own outcome, evaluated here at a lookup that raises.
\<close>

theorem planner_decide_lookup_error_propagates:
  "planner_decide VALID_TOPICS (\<lambda>s. Inl DatabaseError) ''s1'' ''explain matrices'' None =
     Inl DatabaseError"
  by code_simp

lemma planner_decide_raises:
  "student_id \<noteq> [] \<Longrightarrow> gp student_id = Inl e \<Longrightarrow>
   planner_decide topics gp student_id query tp = Inl e"
  by (simp add: planner_decide_def Let_def topic_strength_def)

section \<open>The retriever\<close>

subsection \<open>The loop is the first-seen deduplication of the survivors\<close>

lemma retrieve_loop_dedup:
  "retrieve_loop cl I rs seen = rs @ dedup_first_seen dedup_key seen (survivors cl I)"
  by (induction I arbitrary: rs seen)
     (auto simp: survivors_def List.map_filter_simps split: option.splits)







lemma dedup_subset: "set (dedup_first_seen key seen cs) \<subseteq> set cs"
  by (induction cs arbitrary: seen) auto


lemma survivors_mem: "r \<in> set (survivors cl I) \<longleftrightarrow> (\<exists>i \<in> set I. survivor cl i = Some r)"
  by (induction I) (auto simp: survivors_def List.map_filter_simps split: option.splits)

lemma survivor_props:
  assumes "survivor cl i = Some r"
  shows "0 \<le> i" "i < int (length cl)" "entry_type (cl ! nat i) = ''text''"
    "\<not> is_math_block (entry_text (cl ! nat i))"
    "clean_chunk (clean_text_r (entry_text (cl ! nat i))) = Some (c_text r)"
    "20 \<le> length (c_text r)" "c_type r = ''text''" "c_chapter r = entry_chapter (cl ! nat i)"
  using assms by (auto simp: survivor_def Let_def split: if_splits option.splits)

subsection \<open>A call of retrieve\<close>

lemma retrieve_result:
  assumes "fst (retrieve env g query top_k) = Inr rs"
  shows "rs = retrieve_loop (loaded_chunks (snd (retrieve env g query top_k)))
                (candidate_row (snd (retrieve env g query top_k)) query top_k) [] {}"
  using assms
  by (auto simp: retrieve_def load_model_def load_kb_def loaded_chunks_def candidate_row_def
        get_or_def split: option.splits sum.splits prod.splits)

lemma retrieve_survivors:
  assumes "fst (retrieve env g query top_k) = Inr rs"
  shows "rs = dedup_first_seen dedup_key {}
           (survivors (loaded_chunks (snd (retrieve env g query top_k)))
              (candidate_row (snd (retrieve env g query top_k)) query top_k))"
  using retrieve_result [OF assms] by (simp add: retrieve_loop_dedup)

lemma retrieve_state:
  "snd (retrieve env g query top_k) =
     (case (case g_chunks g of None \<Rightarrow> kb_chunks_npy env | Some cs \<Rightarrow> Some cs) of
        None \<Rightarrow>
          g\<lparr>g_model := Some (case g_model g of None \<Rightarrow> sentence_transformer env | Some m \<Rightarrow> m)\<rparr>
      | Some cs \<Rightarrow>
          g\<lparr>g_model := Some (case g_model g of None \<Rightarrow> sentence_transformer env | Some m \<Rightarrow> m),
            g_chunks := Some cs,
            g_index := (case g_index g of None \<Rightarrow> kb_index_faiss env | Some ix \<Rightarrow> Some ix)\<rparr>)"
  by (auto simp: retrieve_def load_model_def load_kb_def split: option.splits sum.splits prod.splits)

subsection \<open>The small knowledge base, evaluated\<close>

lemma survivor_demo_0: "survivor demo_chunks 0 = Some demo_matrix"
  by code_simp

lemma survivor_demo_1: "survivor demo_chunks 1 = Some demo_matrix"
  by code_simp

lemma survivor_demo_2: "survivor demo_chunks 2 = None"
  by code_simp

lemma survivor_demo_3: "survivor demo_chunks 3 = Some demo_relation"
  by code_simp

lemma survivor_demo_4: "survivor demo_chunks 4 = Some demo_numbered"
  by code_simp

lemma survivor_demo_pad: "survivor demo_chunks (- 1) = None"
  by code_simp

lemmas survivor_demo =
  survivor_demo_0 survivor_demo_1 survivor_demo_2 survivor_demo_3 survivor_demo_4 survivor_demo_pad

lemma survivors_demo:
  "survivors demo_chunks [0, 1, 2, 3, 4] = [demo_matrix, demo_matrix, demo_relation, demo_numbered]"
  by (simp add: survivors_def List.map_filter_simps survivor_demo)

lemma demo_loop:
  "retrieve_loop demo_chunks [0, 1, 2, 3, 4] [] {} = [demo_matrix, demo_relation, demo_numbered]"
  by (simp add: retrieve_loop_dedup survivors_demo dedup_key_def demo_matrix_def demo_relation_def
        demo_numbered_def del: retrieve_loop.simps)

lemma retrieve_demo:
  "fst (retrieve kb_demo globals_init ''matrix'' 5) = Inr [demo_matrix, demo_relation, demo_numbered]"
  by (simp add: retrieve_def load_model_def load_kb_def kb_demo_def globals_init_def demo_loop
        del: retrieve_loop.simps)

lemma loaded_chunks_demo:
  "loaded_chunks (snd (retrieve kb_demo globals_init ''matrix'' 5)) = demo_chunks"
  by (simp add: retrieve_state loaded_chunks_def get_or_def kb_demo_def globals_init_def)

lemma candidate_row_demo:
  "candidate_row (snd (retrieve kb_demo globals_init ''matrix'' 5)) ''matrix'' 5 = [0, 1, 2, 3, 4]"
  by (simp add: retrieve_state candidate_row_def kb_demo_def globals_init_def)

subsection \<open>The knowledge base of long texts, evaluated\<close>











subsection \<open>What a returned chunk satisfies\<close>

text \<open>
  C3, as amended. The claim: every returned chunk has a text of at least 20 characters on
  which \<open>is_math_block\<close> is false, and the type \<open>text\<close>. The length and the type hold.
  The math test is applied to the stored text, before the cleaning: every returned text is
  the cleaned text of a stored chunk of type \<open>text\<close> on which \<open>is_math_block\<close> is false.
\<close>

theorem retrieve_chunks_clean:
  assumes "fst (retrieve env g query top_k) = Inr rs"
    and "r \<in> set rs"
    and "g' = snd (retrieve env g query top_k)"
  shows "20 \<le> length (c_text r) \<and> c_type r = ''text'' \<and>
     (\<exists>i \<in> set (candidate_row g' query top_k).
        0 \<le> i \<and> i < int (length (loaded_chunks g')) \<and>
        entry_type (loaded_chunks g' ! nat i) = ''text'' \<and>
        \<not> is_math_block (entry_text (loaded_chunks g' ! nat i)) \<and>
        clean_chunk (clean_text_r (entry_text (loaded_chunks g' ! nat i))) = Some (c_text r))"
proof -
  have "rs = dedup_first_seen dedup_key {}
               (survivors (loaded_chunks g') (candidate_row g' query top_k))"
    using retrieve_survivors [OF assms(1)] assms(3) by simp
  then have "set rs \<subseteq> set (survivors (loaded_chunks g') (candidate_row g' query top_k))"
    by (simp add: dedup_subset)
  with assms(2) obtain i where i: "i \<in> set (candidate_row g' query top_k)"
      "survivor (loaded_chunks g') i = Some r"
    using survivors_mem by blast
  from survivor_props [OF i(2)] i(1) show ?thesis by blast
qed

theorem retrieve_chunks_clean_witness:
  "fst (retrieve kb_demo globals_init ''matrix'' 5) = Inr [demo_matrix, demo_relation, demo_numbered]
   \<and> demo_matrix \<in> set [demo_matrix, demo_relation, demo_numbered]
   \<and> 20 \<le> length (c_text demo_matrix) \<and> c_type demo_matrix = ''text''"
  using retrieve_chunks_clean [OF retrieve_demo, of demo_matrix] retrieve_demo by simp

text \<open>
  The claim as stated fails: the stored text \<open>---1) some text long enough\<close> is no math
  block, the cleaning removes the dashes, and the returned text \<open>1) some text long enough\<close>
  starts as a numbered item, which \<open>is_math_block\<close> accepts.
\<close>

theorem retrieve_returns_math_block:
  "fst (retrieve kb_demo globals_init ''matrix'' 5) = Inr [demo_matrix, demo_relation, demo_numbered]
   \<and> is_math_block (c_text demo_numbered)"
proof -
  have "is_math_block (c_text demo_numbered)" by code_simp
  then show ?thesis using retrieve_demo by simp
qed

subsection \<open>Deduplication\<close>



subsection \<open>Two calls\<close>

text \<open>
  C10. A second call with the same query and the same \<open>top_k\<close>, from the state the first
  call left and against the same files, gives the same outcome (the same chunk sequence,
  or the same error) and leaves the same state.
\<close>

theorem retrieve_twice:
  "retrieve env (snd (retrieve env g query top_k)) query top_k = retrieve env g query top_k"
  by (auto simp: retrieve_def load_model_def load_kb_def
           split: option.splits sum.splits prod.splits)

text \<open>After a call that returned, the files are not read again.\<close>

lemma retrieve_cached:
  assumes "retrieve env g query top_k = (Inr rs, g')"
  shows "retrieve env' g' query top_k = (Inr rs, g')"
  using assms
  by (auto simp: retrieve_def load_model_def load_kb_def
           split: option.splits sum.splits prod.splits)

subsection \<open>The token signal\<close>

lemma named_math_tokens:
  "set [''exp'', ''lim'', ''='', ''<'', ''>'', ''^'', ''_''] \<subseteq> set MATH_TOKENS"
  by (simp add: MATH_TOKENS_def)

lemma is_math_block_token:
  assumes "t \<in> set MATH_TOKENS" and "sublist t txt"
  shows "is_math_block txt"
proof -
  have "py_in t txt" using assms(2) by (simp add: py_in_iff_sublist)
  then have "filter (\<lambda>t. py_in t txt) MATH_TOKENS \<noteq> []"
    using assms(1) by (auto simp: filter_empty_conv)
  moreover have "txt \<noteq> []" using assms by (auto simp: MATH_TOKENS_def)
  ultimately show ?thesis
    by (auto simp: is_math_block_def Let_def Suc_le_eq)
qed

lemma retrieve_loop_skip:
  assumes "\<And>i. i \<in> set I \<Longrightarrow> P i \<Longrightarrow> survivor cl i = None"
  shows "retrieve_loop cl I rs seen = retrieve_loop cl (filter (\<lambda>i. \<not> P i) I) rs seen"
  using assms
proof (induction I arbitrary: rs seen)
  case Nil
  then show ?case by simp
next
  case (Cons i I)
  then show ?case by (cases "P i") (auto split: option.splits)
qed

text \<open>
  C9, as amended. A text that contains one of the math tokens (among them \<open>exp\<close>, \<open>lim\<close>,
  \<open>=\<close>, \<open><\<close>, \<open>>\<close>, \<open>^\<close> and \<open>_\<close>, see \<open>named_math_tokens\<close>) anywhere, also inside a
  prose word such as \<open>explain\<close> or \<open>limit\<close>, is a math block, and the loop of retrieve
  gives the same result as if no stored chunk with that text were among the candidates.
\<close>

theorem math_token_chunks_dropped:
  assumes "t \<in> set MATH_TOKENS" and "sublist t txt"
  shows "is_math_block txt \<and>
     retrieve_loop cl I rs seen =
       retrieve_loop cl
         (filter (\<lambda>i. \<not> (0 \<le> i \<and> i < int (length cl) \<and> entry_text (cl ! nat i) = txt)) I) rs seen"
proof -
  have m: "is_math_block txt" by (rule is_math_block_token [OF assms])
  have "survivor cl i = None"
    if "0 \<le> i \<and> i < int (length cl) \<and> entry_text (cl ! nat i) = txt" for i
    using that m by (simp add: survivor_def Let_def)
  then have "retrieve_loop cl I rs seen =
       retrieve_loop cl
         (filter (\<lambda>i. \<not> (0 \<le> i \<and> i < int (length cl) \<and> entry_text (cl ! nat i) = txt)) I) rs seen"
    by (intro retrieve_loop_skip) blast
  with m show ?thesis by blast
qed

theorem math_token_chunks_dropped_witness:
  "''lim'' \<in> set MATH_TOKENS \<and> sublist ''lim'' ''The limit of a function.''
   \<and> is_math_block ''The limit of a function.''
   \<and> retrieve_loop demo_chunks [0, 1, 2, 3, 4] [] {} = retrieve_loop demo_chunks [0, 1, 3, 4] [] {}"
proof -
  have t: "''lim'' \<in> set MATH_TOKENS" by (simp add: MATH_TOKENS_def)
  have "py_in ''lim'' ''The limit of a function.''" by code_simp
  then have s: "sublist ''lim'' ''The limit of a function.''" by (simp only: py_in_iff_sublist)
  from math_token_chunks_dropped [OF t s, of demo_chunks "[0, 1, 2, 3, 4]" "[]" "{}"]
  show ?thesis using t s by (simp add: demo_chunks_def entry_text_def get_or_def del: retrieve_loop.simps)
qed

text \<open>
  The claim names \<open>example\<close> among the prose words that hold a token. It holds none
  (\<open>exp\<close> does not occur in it), and a chunk with this word is returned.
\<close>

theorem example_is_not_math_block:
  "\<not> py_in ''exp'' ''example'' \<and> \<not> is_math_block ''For example, a relation is a set.''
   \<and> fst (retrieve kb_demo globals_init ''matrix'' 5) = Inr [demo_matrix, demo_relation, demo_numbered]
   \<and> c_text demo_relation = ''For example, a relation is a set.''"
proof -
  have "\<not> py_in ''exp'' ''example''" by code_simp
  moreover have "\<not> is_math_block ''For example, a relation is a set.''" by code_simp
  ultimately show ?thesis using retrieve_demo by (simp add: demo_relation_def)
qed

section \<open>The explainer\<close>

text \<open>
  The explanation is the join, with blank lines, of the stripped non-empty texts of the
  first \<open>top_k\<close> chunks in their order, truncated.
\<close>

lemma rsplit_space_head_prefix:
  assumes "CHR '' '' \<in> set s"
  shows "\<exists>k < length s. rsplit_space_head s = take k s \<and> s ! k = CHR '' ''"
proof -
  define r where "r = rev s"
  have "CHR '' '' \<in> set r" using assms by (simp add: r_def)
  then obtain a b where ab: "r = a @ CHR '' '' # b" "CHR '' '' \<notin> set a"
    by (meson split_list_first)
  then have dw: "dropWhile (\<lambda>c. c \<noteq> CHR '' '') r = CHR '' '' # b"
    by (auto simp: dropWhile_append3)
  have s: "s = rev b @ CHR '' '' # rev a" using ab(1) unfolding r_def
    by (metis rev_append rev.simps(2) rev_rev_ident append_assoc append_Cons append_Nil)
  have "rsplit_space_head s = rev b" using assms dw by (simp add: rsplit_space_head_def r_def)
  then show ?thesis using s
    by (intro exI [of _ "length b"]) (auto simp: nth_append)
qed

lemma rsplit_space_head_length: "length (rsplit_space_head s) \<le> length s"
proof -
  have "length (dropWhile (\<lambda>c. c \<noteq> CHR '' '') (rev s)) \<le> length s"
    using length_dropWhile_le [of "\<lambda>c. c \<noteq> CHR '' ''" "rev s"] by simp
  then show ?thesis by (auto simp: rsplit_space_head_def)
qed

lemma truncate_at_space:
  assumes "0 \<le> max_chars" and "max_chars < int (length expl)"
    and "CHR '' '' \<in> set (take (nat max_chars) expl)"
  shows "\<exists>k < nat max_chars. truncate_explanation expl max_chars = take k expl @ ''...''
            \<and> expl ! k = CHR '' ''"
proof -
  from rsplit_space_head_prefix [OF assms(3)] obtain k
    where k: "k < length (take (nat max_chars) expl)"
      "rsplit_space_head (take (nat max_chars) expl) = take k (take (nat max_chars) expl)"
      "take (nat max_chars) expl ! k = CHR '' ''"
    by blast
  have kn: "k < nat max_chars" using k(1) by simp
  moreover have "take k (take (nat max_chars) expl) = take k expl" using kn by (simp add: min_def)
  moreover have "expl ! k = CHR '' ''" using k(1,3) by simp
  ultimately show ?thesis using assms(1,2) k(2)
    by (auto simp: truncate_explanation_def slice_to_def)
qed

lemma truncate_length:
  assumes "0 \<le> max_chars" and "max_chars < int (length expl)"
  shows "length (truncate_explanation expl max_chars) \<le> nat max_chars + 3"
  using assms rsplit_space_head_length [of "take (nat max_chars) expl"]
  by (simp add: truncate_explanation_def slice_to_def)

lemma collect_parts_eq:
  "collect_parts cs parts sources =
     (parts @ filter (\<lambda>t. t \<noteq> []) (map (\<lambda>c. strip (t_text c)) cs),
      sources @ map t_chapter (filter (\<lambda>c. strip (t_text c) \<noteq> [] \<and> t_chapter c \<noteq> []) cs))"
  by (induction cs arbitrary: parts sources) (auto simp: Let_def)

lemma explain_chunks_joined:
  assumes "chunks \<noteq> []"
  shows "e_explanation (explain_chunks tp top_k max_chars chunks) =
     truncate_explanation
       (py_join [CHR 0x0A, CHR 0x0A]
          (filter (\<lambda>t. t \<noteq> []) (map (\<lambda>c. strip (t_text c)) (take top_k chunks)))) max_chars"
  using assms by (simp add: explain_chunks_def collect_parts_eq)

text \<open>
  Where the first \<open>max_chars\<close> characters hold a space (and \<open>max_chars\<close> is not negative), the
  truncation cuts at a space inside them (\<open>truncate_at_space\<close>), so no word is split, and
  the result has at most \<open>max_chars\<close> characters before the marker (\<open>truncate_length\<close>).
\<close>

text \<open>
  C8. The claim: an explanation longer than \<open>max_chars\<close> is cut at the last whole-word
  boundary, never inside a word, and \<open>...\<close> is appended. The code cuts
  \<open>explanation[:max_chars]\<close> at its last space; when these characters hold no space it
  keeps all of them. Evaluated here with \<open>max_chars = 8\<close> on a retrieval whose text starts
  with the word \<open>Determinants\<close>: the explanation is \<open>Determin...\<close>, cut inside that word.
\<close>

theorem explain_splits_word:
  "fst (explain kb_det globals_init ''determinants'' 3 8) =
     \<lparr>e_topic = ''determinants'', e_explanation = ''Determin...'',
      e_chapter = Some ''4.pdf'', e_sources = [''4.pdf'']\<rparr>"
  by code_simp

lemma explain_cuts_at_space:
  "fst (explain kb_det globals_init ''determinants'' 3 20) =
     \<lparr>e_topic = ''determinants'', e_explanation = ''Determinants of...'',
      e_chapter = Some ''4.pdf'', e_sources = [''4.pdf'']\<rparr>"
  by code_simp

section \<open>The quiz generator\<close>

subsection \<open>Shuffling permutes\<close>

lemma randbelow_less: "0 < n \<Longrightarrow> fst (randbelow n rng) < n"
  by (auto simp: randbelow_def split: list.splits)

lemma shuffle_from_props:
  "i < length xs \<Longrightarrow>
   length (fst (shuffle_from i xs rng)) = length xs \<and>
   set (fst (shuffle_from i xs rng)) = set xs \<and>
   distinct (fst (shuffle_from i xs rng)) = distinct xs"
proof (induction i arbitrary: xs rng)
  case 0
  then show ?case by simp
next
  case (Suc i)
  obtain j rng' where r: "randbelow (Suc (Suc i)) rng = (j, rng')" by (cases "randbelow (Suc (Suc i)) rng")
  have "j < Suc (Suc i)" using randbelow_less [of "Suc (Suc i)" rng] r by simp
  then have j: "j < length xs" using Suc.prems by simp
  have sw: "length (swap xs (Suc i) j) = length xs" "set (swap xs (Suc i) j) = set xs"
    "distinct (swap xs (Suc i) j) = distinct xs"
    using Suc.prems j by (simp_all add: swap_def set_swap distinct_swap)
  have "i < length (swap xs (Suc i) j)" using Suc.prems sw(1) by simp
  from Suc.IH [OF this, of rng'] show ?case using r sw by simp
qed

lemma shuffle_props:
  "length (fst (shuffle xs rng)) = length xs \<and> set (fst (shuffle xs rng)) = set xs \<and>
   distinct (fst (shuffle xs rng)) = distinct xs"
proof (cases xs)
  case Nil
  then show ?thesis by (simp add: shuffle_def)
next
  case (Cons a as)
  then have "length xs - 1 < length xs" by simp
  from shuffle_from_props [OF this] show ?thesis by (simp add: shuffle_def)
qed

subsection \<open>The distractors\<close>

lemma lower_bank_head:
  "lower ''Limit'' = ''limit''" "lower ''Derivative'' = ''derivative''"
  "lower ''Integral'' = ''integral''" "lower ''Matrix'' = ''matrix''"
  by code_simp+

lemma bank_distinct: "distinct BASE_DISTRACTORS"
  by (simp add: BASE_DISTRACTORS_def)

lemma picks_enough: "3 \<le> length (filter (\<lambda>d. lower d \<noteq> c) BASE_DISTRACTORS)"
proof -
  have "BASE_DISTRACTORS = [''Limit'', ''Derivative'', ''Integral'', ''Matrix''] @ drop 4 BASE_DISTRACTORS"
    by (simp add: BASE_DISTRACTORS_def)
  then have "length (filter (\<lambda>d. lower d \<noteq> c) BASE_DISTRACTORS) \<ge>
     length (filter (\<lambda>d. lower d \<noteq> c) [''Limit'', ''Derivative'', ''Integral'', ''Matrix''])"
    by (metis filter_append length_append le_add1)
  moreover have "3 \<le> length (filter (\<lambda>d. lower d \<noteq> c) [''Limit'', ''Derivative'', ''Integral'', ''Matrix''])"
    by (auto simp: lower_bank_head)
  ultimately show ?thesis by linarith
qed

lemma generate_distractors_props:
  assumes "generate_distractors_for concept correct rng = (ds, rng')"
  shows "length ds = 3 \<and> distinct ds \<and> set ds \<subseteq> set BASE_DISTRACTORS"
proof -
  define picks0 where "picks0 = filter (\<lambda>d. lower d \<noteq> lower concept) BASE_DISTRACTORS"
  obtain picks rng1 where sh: "shuffle picks0 rng = (picks, rng1)" by (cases "shuffle picks0 rng")
  have p: "length picks = length picks0" "set picks = set picks0" "distinct picks = distinct picks0"
    using shuffle_props [of picks0 rng] sh by simp_all
  have len: "3 \<le> length picks" using p(1) picks_enough [of "lower concept"] by (simp add: picks0_def)
  have d: "distinct picks" using p(3) bank_distinct by (simp add: picks0_def)
  have sub: "set picks \<subseteq> set BASE_DISTRACTORS" using p(2) by (auto simp: picks0_def)
  have "pad_distractors (take 3 picks) rng1 = (take 3 picks, rng1)"
    using len by (subst pad_distractors.simps) simp
  then have "ds = take 3 picks"
    using assms sh by (simp add: generate_distractors_for_def picks0_def)
  then show ?thesis using len d sub by (auto simp: min_def dest: in_set_takeD)
qed

subsection \<open>The options and the answer letter\<close>

lemma index_of_props:
  "x \<in> set xs \<Longrightarrow> index_of x xs < length xs \<and> xs ! index_of x xs = x"
  by (induction xs) (auto simp: index_of_def)

lemma chr_letters: "chr 65 = CHR ''A''" "chr 66 = CHR ''B''" "chr 67 = CHR ''C''" "chr 68 = CHR ''D''"
  by code_simp+

lemma letter_of_index:
  assumes "i < 4"
  shows "[chr (i + 65)] \<in> set [''A'', ''B'', ''C'', ''D''] \<and> letter_index [chr (i + 65)] = i"
proof -
  from assms consider "i = 0" | "i = 1" | "i = 2" | "i = 3" by linarith
  then show ?thesis
    by cases (simp_all add: chr_letters letter_index_def code_def)
qed

lemma build_mcq_props:
  assumes "build_mcq chap quest concept correct rng = (m, rng')"
  shows "answer_ok m \<and> m_explanation m = correct \<and> m_question m = quest \<and> m_chapter m = chap \<and>
         (distinct (m_options m) \<or> correct \<in> set BASE_DISTRACTORS)"
proof -
  obtain ds rng1 where g: "generate_distractors_for concept correct rng = (ds, rng1)"
    by (cases "generate_distractors_for concept correct rng")
  obtain opts rng2 where sh: "shuffle (ds @ [correct]) rng1 = (opts, rng2)"
    by (cases "shuffle (ds @ [correct]) rng1")
  have m: "m = \<lparr>m_chapter = chap, m_question = quest, m_options = opts,
                 m_answer = [chr (index_of correct opts + 65)], m_explanation = correct\<rparr>"
    using assms g sh by (simp add: build_mcq_def)
  from generate_distractors_props [OF g]
  have ds: "length ds = 3" "distinct ds" "set ds \<subseteq> set BASE_DISTRACTORS" by simp_all
  have o: "length opts = 4" "set opts = set (ds @ [correct])" "distinct opts = distinct (ds @ [correct])"
    using shuffle_props [of "ds @ [correct]" rng1] sh ds(1) by simp_all
  have "correct \<in> set opts" using o(2) by simp
  from index_of_props [OF this] have i: "index_of correct opts < 4" "opts ! index_of correct opts = correct"
    using o(1) by simp_all
  have "distinct opts \<or> correct \<in> set BASE_DISTRACTORS"
    using o(3) ds(2,3) by auto
  then show ?thesis using m o(1) i letter_of_index [OF i(1)]
    by (simp add: answer_ok_def)
qed

lemma bank_long: "d \<in> set BASE_DISTRACTORS \<Longrightarrow> 12 < length d \<Longrightarrow> d = ''Differentiability''"
  by (auto simp: BASE_DISTRACTORS_def)

lemma bank_no_stop: "d \<in> set BASE_DISTRACTORS \<Longrightarrow> last d \<noteq> CHR ''.''"
  by (auto simp: BASE_DISTRACTORS_def)

subsection \<open>The questions\<close>

lemma try_patterns_ok:
  "try_patterns pats s chap rng = (Some m, rng') \<Longrightarrow> mcq_ok m \<and> m_chapter m = chap"
proof (induction pats)
  case Nil
  then show ?case by simp
next
  case (Cons pat pats)
  show ?case
  proof (cases "pat_search pat s")
    case None
    with Cons show ?thesis by simp
  next
    case (Some g)
    obtain g1 g2 where g: "g = (g1, g2)" by (cases g)
    show ?thesis
    proof (cases "\<not> is_bad_concept (strip g1) \<and> 12 < length (strip g2)")
      case True
      obtain m0 r0 where b: "build_mcq chap (''What is '' @ strip (strip g1) @ ''?'') (strip g1) (strip g2) rng = (m0, r0)"
        by (cases "build_mcq chap (''What is '' @ strip (strip g1) @ ''?'') (strip g1) (strip g2) rng")
      then have "m = m0" using Cons.prems Some g True by (simp add: Let_def)
      with build_mcq_props [OF b] True bank_long [of "strip g2"] show ?thesis
        by (auto simp: mcq_ok_def)
    next
      case False
      with Cons Some g show ?thesis by (auto simp: Let_def)
    qed
  qed
qed

lemma sentence_to_mcq_ok:
  assumes "sentence_to_mcq s chap rng = (Some m, rng')"
  shows "mcq_ok m \<and> m_chapter m = chap"
proof (cases "try_patterns DEF_PATTERNS s chap rng")
  case (Pair mo r1)
  show ?thesis
  proof (cases mo)
    case (Some m1)
    with Pair assms have "m = m1" by (simp add: sentence_to_mcq_def)
    with try_patterns_ok Pair Some show ?thesis by blast
  next
    case None
    show ?thesis
    proof (cases "match_here DEF_RE_SIMPLE s")
      case None
      with Pair \<open>mo = None\<close> assms show ?thesis by (simp add: sentence_to_mcq_def)
    next
      case (Some g)
      obtain g1 g2 where g: "g = (g1, g2)" by (cases g)
      show ?thesis
      proof (cases "\<not> is_bad_concept (strip g1) \<and> 12 < length (strip g2)")
        case True
        obtain m0 r0 where b: "build_mcq chap (''What is '' @ strip g1 @ ''?'') (strip g1) (strip g2) r1 = (m0, r0)"
          by (cases "build_mcq chap (''What is '' @ strip g1 @ ''?'') (strip g1) (strip g2) r1")
        then have "m = m0" using assms Pair \<open>mo = None\<close> Some g True
          by (simp add: sentence_to_mcq_def Let_def)
        with build_mcq_props [OF b] True bank_long [of "strip g2"] show ?thesis
          by (auto simp: mcq_ok_def)
      next
        case False
        with assms Pair \<open>mo = None\<close> Some g show ?thesis
          by (auto simp: sentence_to_mcq_def Let_def)
      qed
    qed
  qed
qed

lemma fallback_mcq_ok:
  assumes "fallback_mcq tp chap rng = (m, rng')"
  shows "answer_ok m \<and> distinct (m_options m) \<and> m_chapter m = chap \<and>
     m_question m = ''Which of the following best describes ''
        @ py_or (strip (py_join '' '' (take 3 (py_split tp)))) ''the topic'' @ ''?''"
proof -
  define concept where "concept = py_or (strip (py_join '' '' (take 3 (py_split tp)))) ''the topic''"
  have b: "build_mcq chap (''Which of the following best describes '' @ concept @ ''?'') concept
             (''A brief description of '' @ concept @ ''.'') rng = (m, rng')"
    using assms by (simp add: fallback_mcq_def Let_def concept_def)
  have "''A brief description of '' @ concept @ ''.'' \<notin> set BASE_DISTRACTORS"
    using bank_no_stop [of "''A brief description of '' @ concept @ ''.''"] by auto
  with build_mcq_props [OF b] show ?thesis by (simp add: concept_def)
qed

subsection \<open>The loops\<close>

lemma sentences_loop_inv:
  assumes "sentences_loop chap n ss mcqs rng = (r, rng', b)"
    and "list_all P mcqs"
    and "\<And>s rg m rg'. sentence_to_mcq s chap rg = (Some m, rg') \<Longrightarrow> P m"
  shows "list_all P r"
  using assms(1,2)
proof (induction ss arbitrary: mcqs rng)
  case Nil
  then show ?case by simp
next
  case (Cons s ss)
  obtain mo r1 where st: "sentence_to_mcq s chap rng = (mo, r1)" by (cases "sentence_to_mcq s chap rng")
  define mcqs' where "mcqs' = (case mo of None \<Rightarrow> mcqs | Some m \<Rightarrow> mcqs @ [m])"
  have P': "list_all P mcqs'"
    using Cons.prems(2) st assms(3) by (cases mo) (auto simp: mcqs'_def)
  show ?case
  proof (cases "n \<le> int (length mcqs')")
    case True
    then have "r = mcqs'" using Cons.prems(1) st by (simp add: mcqs'_def Let_def)
    with P' show ?thesis by simp
  next
    case False
    then have "sentences_loop chap n ss mcqs' r1 = (r, rng', b)"
      using Cons.prems(1) st by (simp add: mcqs'_def Let_def)
    from Cons.IH [OF this P'] show ?thesis .
  qed
qed

lemma sentences_loop_length:
  assumes "sentences_loop chap n ss mcqs rng = (r, rng', b)"
    and "int (length mcqs) < n"
  shows "(b \<longrightarrow> int (length r) = n) \<and> (\<not> b \<longrightarrow> int (length r) < n)"
  using assms
proof (induction ss arbitrary: mcqs rng)
  case Nil
  then show ?case by auto
next
  case (Cons s ss)
  obtain mo r1 where st: "sentence_to_mcq s chap rng = (mo, r1)" by (cases "sentence_to_mcq s chap rng")
  define mcqs' where "mcqs' = (case mo of None \<Rightarrow> mcqs | Some m \<Rightarrow> mcqs @ [m])"
  have len: "int (length mcqs') \<le> n" using Cons.prems(2) by (cases mo) (auto simp: mcqs'_def)
  show ?case
  proof (cases "n \<le> int (length mcqs')")
    case True
    then have "r = mcqs'" "b" using Cons.prems(1) st by (simp_all add: mcqs'_def Let_def)
    with len True show ?thesis by simp
  next
    case False
    then have "sentences_loop chap n ss mcqs' r1 = (r, rng', b)"
      using Cons.prems(1) st by (simp add: mcqs'_def Let_def)
    from Cons.IH [OF this] False show ?thesis by simp
  qed
qed

lemma chunks_loop_inv:
  assumes "chunks_loop n chs mcqs rng = (r, rng', b)"
    and "list_all P mcqs"
    and "\<And>s c rg m rg'. sentence_to_mcq s c rg = (Some m, rg') \<Longrightarrow> P m"
  shows "list_all P r"
  using assms(1,2)
proof (induction chs arbitrary: mcqs rng)
  case Nil
  then show ?case by simp
next
  case (Cons ch chs)
  obtain m1 r1 b1 where sl: "sentences_loop (c_chapter ch) n
      (extract_candidate_sentences (clean_text (c_text ch))) mcqs rng = (m1, r1, b1)"
    by (metis prod_cases3)
  have P1: "list_all P m1" using sentences_loop_inv [OF sl Cons.prems(2)] assms(3) by blast
  show ?case
  proof (cases b1)
    case True
    then have "r = m1" using Cons.prems(1) sl by simp
    with P1 show ?thesis by simp
  next
    case False
    then have "chunks_loop n chs m1 r1 = (r, rng', b)" using Cons.prems(1) sl by simp
    from Cons.IH [OF this P1] show ?thesis .
  qed
qed

lemma chunks_loop_length:
  assumes "chunks_loop n chs mcqs rng = (r, rng', b)"
    and "int (length mcqs) < n"
  shows "(b \<longrightarrow> int (length r) = n) \<and> (\<not> b \<longrightarrow> int (length r) < n)"
  using assms
proof (induction chs arbitrary: mcqs rng)
  case Nil
  then show ?case by auto
next
  case (Cons ch chs)
  obtain m1 r1 b1 where sl: "sentences_loop (c_chapter ch) n
      (extract_candidate_sentences (clean_text (c_text ch))) mcqs rng = (m1, r1, b1)"
    by (metis prod_cases3)
  from sentences_loop_length [OF sl Cons.prems(2)]
  have l1: "(b1 \<longrightarrow> int (length m1) = n) \<and> (\<not> b1 \<longrightarrow> int (length m1) < n)" .
  show ?case
  proof (cases b1)
    case True
    then have "r = m1" "b" using Cons.prems(1) sl by simp_all
    with l1 True show ?thesis by simp
  next
    case False
    then have c: "chunks_loop n chs m1 r1 = (r, rng', b)" using Cons.prems(1) sl by simp
    from Cons.IH [OF c] l1 False show ?thesis by simp
  qed
qed

lemma fallbacks_props:
  assumes "fallbacks k tp chap mcqs rng = (r, rng')"
  shows "length r = length mcqs + k \<and>
     (\<forall>m \<in> set r. m \<in> set mcqs \<or> (\<exists>rg. m = fst (fallback_mcq tp chap rg)))"
  using assms
proof (induction k arbitrary: mcqs rng)
  case 0
  then show ?case by auto
next
  case (Suc k)
  obtain q r1 where f: "fallback_mcq tp chap rng = (q, r1)" by (cases "fallback_mcq tp chap rng")
  then have "fallbacks k tp chap (mcqs @ [q]) r1 = (r, rng')" using Suc.prems by simp
  from Suc.IH [OF this]
  have IH: "length r = length (mcqs @ [q]) + k"
    "\<forall>m \<in> set r. m \<in> set (mcqs @ [q]) \<or> (\<exists>rg. m = fst (fallback_mcq tp chap rg))"
    by blast+
  have q: "q = fst (fallback_mcq tp chap rng)" using f by simp
  have "\<forall>m \<in> set r. m \<in> set mcqs \<or> (\<exists>rg. m = fst (fallback_mcq tp chap rg))"
  proof
    fix m assume "m \<in> set r"
    with IH(2) have "m \<in> set (mcqs @ [q]) \<or> (\<exists>rg. m = fst (fallback_mcq tp chap rg))" by blast
    then show "m \<in> set mcqs \<or> (\<exists>rg. m = fst (fallback_mcq tp chap rg))"
      using q by auto
  qed
  with IH(1) show ?case by simp
qed

subsection \<open>A call of the quiz generator\<close>

lemma generate_quiz_eq:
  assumes "fst (retrieve env g tp 20) = Inr chunks"
  shows "fst (generate_quiz_for_topic env g rng tp n diff) = Inr (fst (quiz_from_chunks tp n chunks rng))"
  using assms by (auto simp: generate_quiz_for_topic_def split: prod.splits sum.splits)

lemma list_slice_to_subset: "set (list_slice_to xs n) \<subseteq> set xs"
  by (auto simp: list_slice_to_def dest: in_set_takeD)

lemma quiz_from_chunks_ok:
  assumes "chunks \<noteq> []"
  shows "list_all mcq_ok (fst (quiz_from_chunks tp n chunks rng))"
proof -
  obtain mcqs r1 b where cl: "chunks_loop n chunks [] rng = (mcqs, r1, b)" by (metis prod_cases3)
  have ok: "list_all mcq_ok mcqs"
    using chunks_loop_inv [OF cl, of mcq_ok] sentence_to_mcq_ok by auto
  show ?thesis
  proof (cases b)
    case True
    with cl ok show ?thesis by (simp add: quiz_from_chunks_def)
  next
    case False
    obtain ch0 chs where ch: "chunks = ch0 # chs" using assms by (cases chunks) auto
    show ?thesis
    proof (cases mcqs)
      case Nil
      obtain r r2 where f: "fallbacks (nat n) (topic_guess tp) (c_chapter ch0) [] r1 = (r, r2)"
        by (cases "fallbacks (nat n) (topic_guess tp) (c_chapter ch0) [] r1")
      have "\<forall>m \<in> set r. mcq_ok m"
      proof
        fix m assume "m \<in> set r"
        with fallbacks_props [OF f] obtain rg where "m = fst (fallback_mcq (topic_guess tp) (c_chapter ch0) rg)"
          by auto
        then show "mcq_ok m"
          using fallback_mcq_ok [of "topic_guess tp" "c_chapter ch0" rg m "snd (fallback_mcq (topic_guess tp) (c_chapter ch0) rg)"]
          by (simp add: mcq_ok_def)
      qed
      then show ?thesis using cl False Nil ch f by (simp add: quiz_from_chunks_def list_all_iff)
    next
      case (Cons a as)
      then have "fst (quiz_from_chunks tp n chunks rng) = list_slice_to mcqs n"
        using cl False ch by (simp add: quiz_from_chunks_def)
      then show ?thesis using ok list_slice_to_subset [of mcqs n] by (auto simp: list_all_iff)
    qed
  qed
qed

lemma quiz_from_chunks_bounds:
  assumes "1 \<le> n"
  shows "fst (quiz_from_chunks tp n chunks rng) \<noteq> [] \<and>
     int (length (fst (quiz_from_chunks tp n chunks rng))) \<le> n \<and>
     (chunks = [] \<longrightarrow> fst (quiz_from_chunks tp n chunks rng) = [sentinel_mcq tp]) \<and>
     (chunks \<noteq> [] \<and> fst (chunks_loop n chunks [] rng) = [] \<longrightarrow>
        int (length (fst (quiz_from_chunks tp n chunks rng))) = n \<and>
        (\<forall>m \<in> set (fst (quiz_from_chunks tp n chunks rng)).
           \<exists>rg. m = fst (fallback_mcq (topic_guess tp) (c_chapter (hd chunks)) rg)))"
proof -
  obtain mcqs r1 b where cl: "chunks_loop n chunks [] rng = (mcqs, r1, b)" by (metis prod_cases3)
  have "int (length ([]::mcq list)) < n" using assms by simp
  from chunks_loop_length [OF cl this]
  have len: "b \<longrightarrow> int (length mcqs) = n" "\<not> b \<longrightarrow> int (length mcqs) < n" by simp_all
  show ?thesis
  proof (cases b)
    case True
    then have r: "fst (quiz_from_chunks tp n chunks rng) = mcqs" using cl by (simp add: quiz_from_chunks_def)
    have "mcqs \<noteq> []" using len(1) True assms by auto
    moreover have "chunks \<noteq> []" using cl True by (cases chunks) auto
    ultimately show ?thesis using r len(1) True cl by simp
  next
    case False
    show ?thesis
    proof (cases mcqs)
      case Nil
      show ?thesis
      proof (cases chunks)
        case Nil
        then show ?thesis using cl False \<open>mcqs = []\<close> assms by (simp add: quiz_from_chunks_def)
      next
        case (Cons ch0 chs)
        obtain r r2 where f: "fallbacks (nat n) (topic_guess tp) (c_chapter ch0) [] r1 = (r, r2)"
          by (cases "fallbacks (nat n) (topic_guess tp) (c_chapter ch0) [] r1")
        have r: "fst (quiz_from_chunks tp n chunks rng) = r"
          using cl False \<open>mcqs = []\<close> Cons f by (simp add: quiz_from_chunks_def)
        from fallbacks_props [OF f] have fp: "length r = nat n"
          "\<forall>m \<in> set r. \<exists>rg. m = fst (fallback_mcq (topic_guess tp) (c_chapter ch0) rg)"
          by auto
        have "r \<noteq> []" using fp(1) assms by auto
        then show ?thesis using r fp Cons assms by simp
      qed
    next
      case (Cons a as)
      have "chunks \<noteq> []" using cl Cons by (cases chunks) auto
      have "list_slice_to mcqs n = mcqs" using len(2) False assms by (simp add: list_slice_to_def)
      then have r: "fst (quiz_from_chunks tp n chunks rng) = mcqs"
        using cl False Cons by (simp add: quiz_from_chunks_def)
      then show ?thesis using Cons len(2) False cl \<open>chunks \<noteq> []\<close> by simp
    qed
  qed
qed

lemma sentinel_mcq_shape:
  "m_options (sentinel_mcq tp) = [''-'', ''-'', ''-'', ''-''] \<and> m_answer (sentinel_mcq tp) = ''A''"
  by (simp add: sentinel_mcq_def)

subsection \<open>The examples, evaluated\<close>

lemma survivors_pad: "survivors cl (I @ replicate k (- 1)) = survivors cl I"
proof -
  have "survivor cl (- 1) = None" by (simp add: survivor_def)
  then have "survivors cl (replicate k (- 1)) = []"
    by (induction k) (simp_all add: survivors_def List.map_filter_simps)
  then show ?thesis by (simp add: survivors_def List.map_filter_def)
qed

lemma retrieve_loop_pad:
  "retrieve_loop cl (I @ replicate k (- 1)) [] {} = retrieve_loop cl I [] {}"
  by (simp add: retrieve_loop_dedup survivors_pad del: retrieve_loop.simps)

lemma retrieve_fresh:
  assumes "kb_chunks_npy env = Some cl" and "kb_index_faiss env = Some idx"
  shows "fst (retrieve env globals_init query top_k) =
           Inr (retrieve_loop cl (idx (sentence_transformer env query) top_k) [] {})"
  using assms
  by (simp add: retrieve_def load_model_def load_kb_def globals_init_def del: retrieve_loop.simps)

lemma demo_row_20:
  "take 20 ([0, 1, 2, 3, 4] @ replicate 20 (- 1)) = [0, 1, 2, 3, 4::int] @ replicate 15 (- 1)"
  by code_simp

lemma retrieve_demo_20:
  "fst (retrieve kb_demo globals_init ''matrix'' 20) = Inr [demo_matrix, demo_relation, demo_numbered]"
proof -
  have "fst (retrieve kb_demo globals_init ''matrix'' 20) =
          Inr (retrieve_loop demo_chunks (take 20 ([0, 1, 2, 3, 4] @ replicate 20 (- 1))) [] {})"
    by (rule retrieve_fresh [where idx = "\<lambda>e k. take k ([0, 1, 2, 3, 4] @ replicate k (- 1))",
          THEN trans]) (simp_all add: kb_demo_def del: retrieve_loop.simps)
  then show ?thesis by (simp only: demo_row_20 retrieve_loop_pad demo_loop)
qed

lemma det_survivor:
  "survivor [DictChunk (Some ''4.pdf'') (Some ''Determinants of square matrices.'') None] 0 = Some det_chunk"
  by code_simp

lemma det_row_20: "take 20 ([0] @ replicate 20 (- 1)) = [0::int] @ replicate 19 (- 1)"
  by code_simp

lemma retrieve_det_20:
  "fst (retrieve kb_det globals_init ''determinants'' 20) = Inr [det_chunk]"
proof -
  have "fst (retrieve kb_det globals_init ''determinants'' 20) =
          Inr (retrieve_loop [DictChunk (Some ''4.pdf'') (Some ''Determinants of square matrices.'') None]
                 (take 20 ([0] @ replicate 20 (- 1))) [] {})"
    by (rule retrieve_fresh [where idx = "\<lambda>e k. take k ([0] @ replicate k (- 1))", THEN trans])
       (simp_all add: kb_det_def del: retrieve_loop.simps)
  then show ?thesis
    by (simp only: det_row_20 retrieve_loop_pad) (simp add: det_survivor)
qed

lemma retrieve_empty_20: "fst (retrieve kb_empty globals_init ''x'' 20) = Inr []"
  by code_simp

lemma quiz_demo:
  "fst (quiz_from_chunks ''matrix'' 1 [demo_matrix, demo_relation, demo_numbered] demo_rng) = [demo_mcq]"
  by code_simp

lemma quiz_det:
  "fst (quiz_from_chunks ''determinants'' 2 [det_chunk] demo_rng) = det_fallbacks"
  by code_simp

lemma quiz_det_scan: "fst (chunks_loop 2 [det_chunk] [] demo_rng) = []"
  by code_simp

lemma quiz_det_zero: "fst (quiz_from_chunks ''determinants'' 0 [det_chunk] []) = []"
  by code_simp

lemma quiz_empty: "fst (quiz_from_chunks ''x'' 3 [] []) = [sentinel_mcq ''x'']"
  by code_simp

subsection \<open>The claims about the quiz\<close>

text \<open>
  C1, as amended. Where the retrieval is not empty, every MCQ that
  \<open>generate_quiz_for_topic\<close> returns, built from a definitional sentence or as a generic
  fallback, has exactly four options, an answer that is one of the letters A to D, and
  at the index of that letter the option that equals the explanation; its options are
  pairwise distinct unless the correct text is itself the bank term
  \<open>Differentiability\<close>. (The fallback MCQs always have distinct options:
  \<open>fallback_mcq_ok\<close>.)
\<close>

theorem quiz_mcq_valid:
  assumes "fst (retrieve env g tp 20) = Inr chunks" and "chunks \<noteq> []"
    and "fst (generate_quiz_for_topic env g rng tp n diff) = Inr ms" and "m \<in> set ms"
  shows "length (m_options m) = 4 \<and> m_answer m \<in> set [''A'', ''B'', ''C'', ''D''] \<and>
     m_options m ! letter_index (m_answer m) = m_explanation m \<and>
     (distinct (m_options m) \<or> m_explanation m = ''Differentiability'')"
proof -
  have "ms = fst (quiz_from_chunks tp n chunks rng)"
    using generate_quiz_eq [OF assms(1), of rng n diff] assms(3) by simp
  then have "mcq_ok m" using quiz_from_chunks_ok [OF assms(2), of tp n rng] assms(4)
    by (simp add: list_all_iff)
  then show ?thesis by (simp add: mcq_ok_def answer_ok_def)
qed

theorem quiz_mcq_valid_witness:
  "fst (retrieve kb_demo globals_init ''matrix'' 20) = Inr [demo_matrix, demo_relation, demo_numbered]
   \<and> [demo_matrix, demo_relation, demo_numbered] \<noteq> []
   \<and> fst (generate_quiz_for_topic kb_demo globals_init demo_rng ''matrix'' 1 None) = Inr [demo_mcq]
   \<and> demo_mcq \<in> set [demo_mcq]
   \<and> length (m_options demo_mcq) = 4 \<and> m_answer demo_mcq \<in> set [''A'', ''B'', ''C'', ''D'']
   \<and> m_options demo_mcq ! letter_index (m_answer demo_mcq) = m_explanation demo_mcq
   \<and> (distinct (m_options demo_mcq) \<or> m_explanation demo_mcq = ''Differentiability'')"
proof -
  have q: "fst (generate_quiz_for_topic kb_demo globals_init demo_rng ''matrix'' 1 None) = Inr [demo_mcq]"
    using generate_quiz_eq [OF retrieve_demo_20, of demo_rng 1 None] quiz_demo by simp
  have ne: "[demo_matrix, demo_relation, demo_numbered] \<noteq> []" by simp
  from quiz_mcq_valid [OF retrieve_demo_20 ne q, of demo_mcq]
  show ?thesis using retrieve_demo_20 q by simp
qed

text \<open>
  The claim as stated fails on the sentinel placeholder, which is returned when the
  retrieval is empty: its four options are the same dash, and the option at the index of
  its answer \<open>A\<close> is a dash, not its explanation.
\<close>

theorem quiz_sentinel_not_valid:
  "fst (generate_quiz_for_topic kb_empty globals_init [] ''x'' 3 None) = Inr [sentinel_mcq ''x'']
   \<and> \<not> distinct (m_options (sentinel_mcq ''x''))
   \<and> m_options (sentinel_mcq ''x'') ! letter_index (m_answer (sentinel_mcq ''x''))
       \<noteq> m_explanation (sentinel_mcq ''x'')"
proof -
  have "fst (generate_quiz_for_topic kb_empty globals_init [] ''x'' 3 None) = Inr [sentinel_mcq ''x'']"
    using generate_quiz_eq [OF retrieve_empty_20, of "[]" 3 None] quiz_empty by simp
  moreover have "letter_index ''A'' = 0" by code_simp
  ultimately show ?thesis by (simp add: sentinel_mcq_def)
qed

text \<open>
  The exception is real: the distractors are drawn from the bank without a look at the
  correct text, and these draws put the bank term beside the equal definition.
\<close>

lemma quiz_duplicate_option:
  "fst (quiz_from_chunks ''smooth'' 1
      [\<lparr>c_chapter = ''5.pdf'', c_text = ''Smoothness is defined as Differentiability'',
        c_type = ''text''\<rparr>]
      [13, 12, 0, 10, 9, 8, 7, 6, 5, 4, 3, 2, 1, 3, 2, 1]) =
   [\<lparr>m_chapter = ''5.pdf'', m_question = ''What is Smoothness?'',
     m_options = [''Differentiability'', ''Derivative'', ''Integral'', ''Differentiability''],
     m_answer = ''A'', m_explanation = ''Differentiability''\<rparr>]"
  by code_simp

text \<open>
  C2, as amended. For \<open>n_questions\<close> of at least 1, when the retrieval returns, the call
  returns a sequence that is not empty and has at most \<open>n_questions\<close> MCQs; with an empty
  retrieval it is the one sentinel placeholder (dash options, answer \<open>A\<close>:
  \<open>sentinel_mcq_shape\<close>); with chunks of which no sentence yields an MCQ it is
  \<open>n_questions\<close> generic fallback MCQs.
\<close>

theorem quiz_nonempty_bounded:
  assumes "1 \<le> n" and "fst (retrieve env g tp 20) = Inr chunks"
  shows "\<exists>ms. fst (generate_quiz_for_topic env g rng tp n diff) = Inr ms \<and> ms \<noteq> [] \<and>
     int (length ms) \<le> n \<and>
     (chunks = [] \<longrightarrow> ms = [sentinel_mcq tp]) \<and>
     (chunks \<noteq> [] \<and> fst (chunks_loop n chunks [] rng) = [] \<longrightarrow>
        int (length ms) = n \<and>
        (\<forall>m \<in> set ms. \<exists>rg. m = fst (fallback_mcq (topic_guess tp) (c_chapter (hd chunks)) rg)))"
  using quiz_from_chunks_bounds [OF assms(1), of tp chunks rng]
    generate_quiz_eq [OF assms(2), of rng n diff]
  by blast

theorem quiz_nonempty_bounded_witness:
  "(1::int) \<le> 2
   \<and> fst (retrieve kb_det globals_init ''determinants'' 20) = Inr [det_chunk]
   \<and> fst (generate_quiz_for_topic kb_det globals_init demo_rng ''determinants'' 2 None) = Inr det_fallbacks
   \<and> det_fallbacks \<noteq> [] \<and> int (length det_fallbacks) \<le> 2
   \<and> fst (chunks_loop 2 [det_chunk] [] demo_rng) = [] \<and> int (length det_fallbacks) = 2"
proof -
  have one: "(1::int) \<le> 2" by simp
  have q: "fst (generate_quiz_for_topic kb_det globals_init demo_rng ''determinants'' 2 None) = Inr det_fallbacks"
    using generate_quiz_eq [OF retrieve_det_20, of demo_rng 2 None] quiz_det by simp
  from quiz_nonempty_bounded [OF one retrieve_det_20, of demo_rng None]
  show ?thesis using retrieve_det_20 q quiz_det_scan by auto
qed

text \<open>
  The claim as stated fails for \<open>n_questions = 0\<close>: with a chunk whose sentence yields no
  MCQ the call returns the empty sequence, and with an empty retrieval it returns the one
  sentinel, more than \<open>n_questions\<close>.
\<close>

theorem quiz_zero_questions:
  "fst (generate_quiz_for_topic kb_det globals_init [] ''determinants'' 0 None) = Inr []
   \<and> fst (generate_quiz_for_topic kb_empty globals_init [] ''x'' 0 None) = Inr [sentinel_mcq ''x'']"
proof -
  have "fst (quiz_from_chunks ''x'' 0 [] []) = [sentinel_mcq ''x'']" by code_simp
  then show ?thesis
    using generate_quiz_eq [OF retrieve_det_20, of "[]" 0 None] quiz_det_zero
      generate_quiz_eq [OF retrieve_empty_20, of "[]" 0 None]
    by simp
qed

end
